theory Spec2Isabelle
  imports Complex_Main "HOL-Library.AList"
begin

section \<open>Exceptions\<close>

text \<open>
  A raised Python exception is a value: its class and what its message reports.
  The texts of the f-strings are kept as constructors, the interpolated values as
  their arguments.
\<close>

datatype exn_class =
  ValueError | RuntimeError | TypeError | AttributeError | IndexError | NameError

datatype message =
    InvalidWidth real                 \<comment> \<open>\<open>2*width = {2 * width} instead!\<close>\<close>
  | TimeScalingNotPositive real       \<comment> \<open>\<open>Only strictly positive time_scaling are allowed, ...\<close>\<close>
  | TooFewBasis int                   \<comment> \<open>\<open>requires >= 2 basis elements. {n} ... instead\<close>\<close>
  | LinspaceNegative int              \<comment> \<open>numpy: \<open>Number of samples, {num}, must be non-negative.\<close>\<close>
  | OutOfBounds nat nat               \<comment> \<open>numpy: index out of bounds for axis with the given size\<close>
  | NotInitialized                    \<comment> \<open>\<open>Cannot initialize TransformerBasis: ... Please call `set_input_shape` ...\<close>\<close>
  | NotTwoDimensional                 \<comment> \<open>\<open>The input must be a 2-dimensional array.\<close>\<close>
  | WrongNdim "nat list"              \<comment> \<open>\<open>X must be 2-dimensional, ... has shape {X.shape} instead.\<close>\<close>
  | InputMismatch nat nat             \<comment> \<open>\<open>expected {sum(...)} inputs, but got {X.shape[1]} columns in X.\<close>\<close>
  | SampleMismatch nat nat            \<comment> \<open>\<open>X and y must have the same number of samples. ...\<close> (never built)\<close>
  | NameNotDefined string             \<comment> \<open>\<open>name ... is not defined\<close>\<close>
  | NoAttribute string                \<comment> \<open>\<open>... object has no attribute ...\<close>\<close>
  | NotIterable                       \<comment> \<open>\<open>'NoneType' object is not iterable\<close>\<close>
  | NotSubscriptable                  \<comment> \<open>\<open>'NoneType' object is not subscriptable\<close>\<close>
  | TupleIndex                        \<comment> \<open>\<open>tuple index out of range\<close>\<close>
  | TooManyIndices                    \<comment> \<open>numpy: too many indices for array\<close>
  | CannotReshape nat "nat list"      \<comment> \<open>numpy: cannot reshape array of size ... into shape ...\<close>
  | ExponentNotInteger                \<comment> \<open>the exponent of \<open>**\<close> is not an integer\<close>
  | ExponentNotPositive               \<comment> \<open>the exponent of \<open>**\<close> is an integer below 1\<close>
  | LeafNotArray                      \<comment> \<open>a value of the feature container is not an array\<close>
  | LengthMismatch nat nat            \<comment> \<open>established and offered length of the leading axis\<close>

datatype error = Error (exn_class: exn_class) (message: message)

section \<open>Raised cosine bases (\<open>_raised_cosine_basis.py\<close>)\<close>

text \<open>
  Python floats are idealised as reals: rounding, infinities and NaN are not
  represented. Samples are one-dimensional arrays, here lists.
\<close>

record RaisedCosineBasisLinear =
  n_basis_funcs :: int
  bounds :: "(real \<times> real) option"
  width :: real
  rescale_samples :: bool

record RaisedCosineBasisLog = RaisedCosineBasisLinear +
  time_scaling :: real
  enforce_decay_to_zero :: bool

subsection \<open>Validation of \<open>width\<close>\<close>

text \<open>Python's \<open>round\<close> on a float: to the nearest integer, ties to the even one.\<close>

definition py_round :: "real \<Rightarrow> int" where
  "py_round x =
     (let f = \<lfloor>x\<rfloor>; d = x - of_int f
      in if d < 1 / 2 then f
         else if 1 / 2 < d then f + 1
         else if even f then f else f + 1)"

text \<open>\<open>np.isclose(a, b)\<close> with its default tolerances \<open>rtol = 1e-05\<close> and \<open>atol = 1e-08\<close>.\<close>

definition isclose :: "real \<Rightarrow> real \<Rightarrow> bool" where
  "isclose a b \<longleftrightarrow> \<bar>a - b\<bar> \<le> 1 / 10 ^ 8 + 1 / 10 ^ 5 * \<bar>b\<bar>"

definition check_width :: "real \<Rightarrow> error + unit" where
  "check_width w =
     (if w \<le> 1 \<or> \<not> isclose (w * 2) (of_int (py_round (2 * w)))
      then Inl (Error ValueError (InvalidWidth (2 * w)))
      else Inr ())"

text \<open>The setter of the property \<open>width\<close>.\<close>

definition set_width :: "real \<Rightarrow> 'a RaisedCosineBasisLinear_scheme \<Rightarrow>
    error + 'a RaisedCosineBasisLinear_scheme" where
  "set_width w self =
     (case check_width w of
        Inl e \<Rightarrow> Inl e
      | Inr _ \<Rightarrow> Inr (self\<lparr>width := w\<rparr>))"

definition check_n_basis_min :: "'a RaisedCosineBasisLinear_scheme \<Rightarrow> error + unit" where
  "check_n_basis_min self =
     (if n_basis_funcs self < 2
      then Inl (Error ValueError (TooFewBasis (n_basis_funcs self)))
      else Inr ())"

text \<open>
  \<open>RaisedCosineBasisLinear.__init__\<close>. The constructor of the parent class \<open>Basis\<close> is
  not part of the sources at hand: its outcome \<open>basis_init\<close> (it raises, or it returns
  after storing \<open>n_basis_funcs\<close> and \<open>bounds\<close>) is a parameter.
\<close>

definition RaisedCosineBasisLinear_init ::
    "error + unit \<Rightarrow> int \<Rightarrow> real \<Rightarrow> (real \<times> real) option \<Rightarrow> error + RaisedCosineBasisLinear" where
  "RaisedCosineBasisLinear_init basis_init n w bnds =
     (case basis_init of
        Inl e \<Rightarrow> Inl e
      | Inr _ \<Rightarrow>
          (case check_width w of
             Inl e \<Rightarrow> Inl e
           | Inr _ \<Rightarrow>
               Inr \<lparr>n_basis_funcs = n, bounds = bnds, width = w, rescale_samples = True\<rparr>))"

subsection \<open>Validation of \<open>time_scaling\<close>\<close>

definition check_time_scaling :: "real \<Rightarrow> error + unit" where
  "check_time_scaling ts =
     (if ts \<le> 0 then Inl (Error ValueError (TimeScalingNotPositive ts)) else Inr ())"

definition set_time_scaling :: "real \<Rightarrow> RaisedCosineBasisLog \<Rightarrow> error + RaisedCosineBasisLog" where
  "set_time_scaling ts self =
     (case check_time_scaling ts of
        Inl e \<Rightarrow> Inl e
      | Inr _ \<Rightarrow> Inr (self\<lparr>time_scaling := ts\<rparr>))"

text \<open>
  \<open>RaisedCosineBasisLog.__init__\<close>: the parent's constructor first, then the flag
  \<open>_rescale_samples\<close> is cleared, a missing \<open>time_scaling\<close> becomes 50, and the setter
  validates it.
\<close>

definition RaisedCosineBasisLog_init ::
    "error + unit \<Rightarrow> int \<Rightarrow> real \<Rightarrow> real option \<Rightarrow> bool \<Rightarrow> (real \<times> real) option \<Rightarrow>
     error + RaisedCosineBasisLog" where
  "RaisedCosineBasisLog_init basis_init n w ts_opt decay bnds =
     (case RaisedCosineBasisLinear_init basis_init n w bnds of
        Inl e \<Rightarrow> Inl e
      | Inr b \<Rightarrow>
          (let ts = (case ts_opt of None \<Rightarrow> 50 | Some t \<Rightarrow> t)
           in case check_time_scaling ts of
                Inl e \<Rightarrow> Inl e
              | Inr _ \<Rightarrow>
                  Inr \<lparr>n_basis_funcs = n_basis_funcs b, bounds = bounds b, width = width b,
                       rescale_samples = False, time_scaling = ts,
                       enforce_decay_to_zero = decay\<rparr>))"

subsection \<open>Peaks\<close>

text \<open>
  \<open>np.linspace(start, stop, num)\<close>: \<open>num\<close> points \<open>k * step + start\<close> with
  \<open>step = (stop - start) / (num - 1)\<close>, the last one overwritten by \<open>stop\<close>; a single
  point is \<open>start\<close>; a negative \<open>num\<close> raises.
\<close>

definition linspace :: "real \<Rightarrow> real \<Rightarrow> int \<Rightarrow> error + real list" where
  "linspace start stop num =
     (if num < 0 then Inl (Error ValueError (LinspaceNegative num))
      else let n = nat num in
        if n = 0 then Inr []
        else if n = 1 then Inr [start]
        else let step = (stop - start) / real (n - 1);
                 y = map (\<lambda>k. real k * step + start) [0..<n]
             in Inr (y[n - 1 := stop]))"

definition Linear_compute_peaks :: "'a RaisedCosineBasisLinear_scheme \<Rightarrow> error + real list" where
  "Linear_compute_peaks self = linspace 0 1 (n_basis_funcs self)"

definition Log_last_peak :: "RaisedCosineBasisLog \<Rightarrow> real" where
  "Log_last_peak self =
     (if enforce_decay_to_zero self
      then 1 - width self / (real_of_int (n_basis_funcs self) + width self - 1)
      else 1)"

definition Log_compute_peaks :: "RaisedCosineBasisLog \<Rightarrow> error + real list" where
  "Log_compute_peaks self = linspace 0 (Log_last_peak self) (n_basis_funcs self)"

subsection \<open>Evaluation\<close>

text \<open>\<open>np.clip(x, lo, hi)\<close> is \<open>minimum(maximum(x, lo), hi)\<close>.\<close>

definition clip :: "real \<Rightarrow> real \<Rightarrow> real \<Rightarrow> real" where
  "clip x lo hi = min (max x lo) hi"

text \<open>Reading \<open>peaks[i]\<close>: numpy raises \<open>IndexError\<close> out of range.\<close>

definition peak_at :: "real list \<Rightarrow> nat \<Rightarrow> error + real" where
  "peak_at ps i =
     (if i < length ps then Inr (ps ! i) else Inl (Error IndexError (OutOfBounds i (length ps))))"

text \<open>The broadcast expression: one row per sample, one column per peak.\<close>

definition raised_cosine :: "real \<Rightarrow> real \<Rightarrow> real list \<Rightarrow> real list \<Rightarrow> real list list" where
  "raised_cosine delta w peaks sample_pts =
     map (\<lambda>x. map (\<lambda>p. 0.5 * (cos (clip (pi * (x - p) / (delta * w)) (- pi) pi) + 1)) peaks)
       sample_pts"

text \<open>
  The global names of the module: those its import statements bind and its two
  classes. Reading a global name that is neither one of these nor a builtin raises
  \<open>NameError\<close>.
\<close>

definition module_names :: "string list" where
  "module_names =
     [''annotations'', ''Optional'', ''Tuple'', ''np'', ''scipy'', ''ArrayLike'', ''NDArray'',
      ''support_pynapple'', ''FeatureMatrix'', ''EvalBasisMixin'', ''ConvBasisMixin'', ''Basis'',
      ''check_transform_input'', ''check_one_dimensional'', ''abc'',
      ''RaisedCosineBasisLinear'', ''RaisedCosineBasisLog'']"

definition read_global :: "string \<Rightarrow> error + unit" where
  "read_global name =
     (if name \<in> set module_names then Inr () else Inl (Error NameError (NameNotDefined name)))"

text \<open>
  The body of \<open>RaisedCosineBasisLinear.__call__\<close>. Its decorators, which convert the
  argument to an array and refuse one that is not one-dimensional, are defined in
  other modules; the argument is a list of reals. The method \<open>_compute_peaks\<close> is
  overridden in the subclass, so the result of \<open>self._compute_peaks()\<close> is passed in by
  the two entry points below. The call of \<open>min_max_rescale_samples\<close> reads that global
  name first; \<open>rescale\<close> is the function the name would stand for, which raises or
  returns the rescaled samples and the scaling.
\<close>

type_synonym rescaler = "real list \<Rightarrow> (real \<times> real) option \<Rightarrow> error + (real list \<times> real)"

definition call_body :: "rescaler \<Rightarrow> error + real list \<Rightarrow> 'a RaisedCosineBasisLinear_scheme \<Rightarrow>
    real list \<Rightarrow> error + real list list" where
  "call_body rescale compute_peaks self sample_pts =
     (case (if rescale_samples self
            then (case read_global ''min_max_rescale_samples'' of
                    Inl e \<Rightarrow> Inl e
                  | Inr _ \<Rightarrow>
                      (case rescale sample_pts (bounds self) of
                         Inl e \<Rightarrow> Inl e | Inr (pts, _) \<Rightarrow> Inr pts))
            else Inr sample_pts) of
        Inl e \<Rightarrow> Inl e
      | Inr pts \<Rightarrow>
          (case compute_peaks of
             Inl e \<Rightarrow> Inl e
           | Inr peaks \<Rightarrow>
               (case peak_at peaks 1 of
                  Inl e \<Rightarrow> Inl e
                | Inr p1 \<Rightarrow>
                    (case peak_at peaks 0 of
                       Inl e \<Rightarrow> Inl e
                     | Inr p0 \<Rightarrow>
                         Inr (raised_cosine (p1 - p0) (width self) peaks pts)))))"

definition RaisedCosineBasisLinear_call :: "rescaler \<Rightarrow> RaisedCosineBasisLinear \<Rightarrow> real list \<Rightarrow>
    error + real list list" where
  "RaisedCosineBasisLinear_call rescale self sample_pts =
     call_body rescale (Linear_compute_peaks self) self sample_pts"

text \<open>
  \<open>RaisedCosineBasisLog._transform_samples\<close>: read the global name, rescale, then
  stretch logarithmically.
\<close>

definition log_stretch :: "real \<Rightarrow> real \<Rightarrow> real" where
  "log_stretch ts x = ln (ts * x + 1) / ln (ts + 1)"

definition transform_samples :: "rescaler \<Rightarrow> RaisedCosineBasisLog \<Rightarrow> real list \<Rightarrow>
    error + real list" where
  "transform_samples rescale self sample_pts =
     (case read_global ''min_max_rescale_samples'' of
        Inl e \<Rightarrow> Inl e
      | Inr _ \<Rightarrow>
          (case rescale sample_pts (bounds self) of
             Inl e \<Rightarrow> Inl e
           | Inr (pts, _) \<Rightarrow> Inr (map (log_stretch (time_scaling self)) pts)))"

definition RaisedCosineBasisLog_call :: "rescaler \<Rightarrow> RaisedCosineBasisLog \<Rightarrow> real list \<Rightarrow>
    error + real list list" where
  "RaisedCosineBasisLog_call rescale self sample_pts =
     (case transform_samples rescale self sample_pts of
        Inl e \<Rightarrow> Inl e
      | Inr pts \<Rightarrow> call_body rescale (Log_compute_peaks self) self pts)"

section \<open>Arrays\<close>

text \<open>
  A numpy array is its shape and its elements in row-major order. A Python value
  handed to a method is such an array or some object that is none (it has neither
  \<open>ndim\<close> nor \<open>shape\<close>).
\<close>

record ndarray =
  shape :: "nat list"
  data :: "real list"

datatype pyobj = Array ndarray | NoArray

text \<open>\<open>X.shape[k]\<close>: a tuple index out of range raises \<open>IndexError\<close>.\<close>

definition shape_at :: "ndarray \<Rightarrow> nat \<Rightarrow> error + nat" where
  "shape_at x k =
     (if k < length (shape x) then Inr (shape x ! k) else Inl (Error IndexError TupleIndex))"

text \<open>
  \<open>X[:, a:b]\<close> with \<open>0 \<le> a \<le> b\<close>: the bounds are cut at the length of the second
  axis; an array with fewer than two axes raises \<open>IndexError\<close>.
\<close>

definition slice_cols :: "ndarray \<Rightarrow> nat \<Rightarrow> nat \<Rightarrow> error + ndarray" where
  "slice_cols x a b =
     (case shape x of
        n0 # n1 # rest \<Rightarrow>
          (let p = prod_list rest; a' = min a n1; b' = min b n1
           in Inr \<lparr>shape = n0 # (b' - a') # rest,
                   data = concat (map (\<lambda>r. take ((b' - a') * p) (drop ((r * n1 + a') * p) (data x)))
                                   [0..<n0])\<rparr>)
      | _ \<Rightarrow> Inl (Error IndexError TooManyIndices))"

text \<open>\<open>np.reshape(x, newshape)\<close>: the number of elements must stay the same.\<close>

definition reshape :: "ndarray \<Rightarrow> nat list \<Rightarrow> error + ndarray" where
  "reshape x newshape =
     (if prod_list newshape = prod_list (shape x)
      then Inr \<lparr>shape = newshape, data = data x\<rparr>
      else Inl (Error ValueError (CannotReshape (prod_list (shape x)) newshape)))"

section \<open>The transformer (\<open>_transformer_basis.py\<close>): fitting and transforming\<close>

text \<open>
  The class \<open>Basis\<close> is not part of the sources at hand. Of the object that the
  attribute \<open>_basis\<close> refers to, the methods below read \<open>_n_basis_input_\<close> (\<open>None\<close> until
  the input shape is set; the property \<open>n_basis_input_\<close> returns it) and, of each leaf
  that \<open>_list_components()\<close> returns, \<open>_input_shape_\<close>. The methods \<open>setup_basis\<close> and
  \<open>_compute_features\<close> are parameters.
\<close>

record Basis =
  n_basis_input :: "nat list option"
  list_components :: "nat list list"

definition check_initialized :: "'a Basis_scheme \<Rightarrow> error + unit" where
  "check_initialized basis =
     (case n_basis_input basis of
        None \<Rightarrow> Inl (Error RuntimeError NotInitialized)
      | Some _ \<Rightarrow> Inr ())"

text \<open>
  \<open>_check_input\<close>. The last message reads the attribute \<open>shpae\<close> of \<open>X\<close>, which no
  array has: building it raises \<open>AttributeError\<close>.
\<close>

definition check_input :: "'a Basis_scheme \<Rightarrow> pyobj \<Rightarrow> pyobj option \<Rightarrow> error + unit" where
  "check_input basis X y =
     (case X of
        NoArray \<Rightarrow> Inl (Error ValueError NotTwoDimensional)
      | Array x \<Rightarrow>
          if length (shape x) \<noteq> 2 then Inl (Error ValueError (WrongNdim (shape x)))
          else
            (case n_basis_input basis of
               None \<Rightarrow> Inl (Error TypeError NotIterable)
             | Some nbi \<Rightarrow>
                 if shape x ! 1 \<noteq> sum_list nbi
                 then Inl (Error ValueError (InputMismatch (sum_list nbi) (shape x ! 1)))
                 else
                   (case y of
                      None \<Rightarrow> Inr ()
                    | Some NoArray \<Rightarrow> Inl (Error AttributeError (NoAttribute ''shape''))
                    | Some (Array ya) \<Rightarrow>
                        (case shape_at ya 0 of
                           Inl e \<Rightarrow> Inl e
                         | Inr m \<Rightarrow>
                             if m \<noteq> shape x ! 0
                             then Inl (Error AttributeError (NoAttribute ''shpae''))
                             else Inr ()))))"

text \<open>
  The loop of \<open>_unpack_inputs\<close>: \<open>i\<close> counts the components, \<open>cc\<close> is the first column
  of the next slice.
\<close>

fun unpack_loop :: "ndarray \<Rightarrow> nat \<Rightarrow> nat list \<Rightarrow> nat \<Rightarrow> nat \<Rightarrow> nat list list \<Rightarrow>
    error + ndarray list" where
  "unpack_loop X n_samples nbi i cc [] = Inr []"
| "unpack_loop X n_samples nbi i cc (input_shape # rest) =
     (if length nbi \<le> i then Inl (Error IndexError TupleIndex)
      else
        (let n_input = nbi ! i
         in case slice_cols X cc (cc + n_input) of
              Inl e \<Rightarrow> Inl e
            | Inr s \<Rightarrow>
                (case reshape s (n_samples # input_shape) of
                   Inl e \<Rightarrow> Inl e
                 | Inr r \<Rightarrow>
                     (case unpack_loop X n_samples nbi (i + 1) (cc + n_input) rest of
                        Inl e \<Rightarrow> Inl e
                      | Inr out \<Rightarrow> Inr (r # out)))))"

definition unpack_inputs :: "'a Basis_scheme \<Rightarrow> pyobj \<Rightarrow> error + ndarray list" where
  "unpack_inputs basis X =
     (case X of
        NoArray \<Rightarrow> Inl (Error AttributeError (NoAttribute ''shape''))
      | Array x \<Rightarrow>
          (case shape_at x 0 of
             Inl e \<Rightarrow> Inl e
           | Inr n_samples \<Rightarrow>
               (case n_basis_input basis of
                  None \<Rightarrow>
                    (case list_components basis of
                       [] \<Rightarrow> Inr []
                     | _ \<Rightarrow> Inl (Error TypeError NotSubscriptable))
                | Some nbi \<Rightarrow> unpack_loop x n_samples nbi 0 0 (list_components basis))))"

type_synonym 'a setup_method = "'a Basis_scheme \<Rightarrow> ndarray list \<Rightarrow> error + 'a Basis_scheme"
type_synonym 'a features_method = "'a Basis_scheme \<Rightarrow> ndarray list \<Rightarrow> error + ndarray"

text \<open>\<open>fit\<close> returns the transformer, whose basis \<open>setup_basis\<close> has updated.\<close>

definition fit :: "'a setup_method \<Rightarrow> 'a Basis_scheme \<Rightarrow> pyobj \<Rightarrow> pyobj option \<Rightarrow>
    error + 'a Basis_scheme" where
  "fit setup_basis basis X y =
     (case check_initialized basis of
        Inl e \<Rightarrow> Inl e
      | Inr _ \<Rightarrow>
          (case check_input basis X y of
             Inl e \<Rightarrow> Inl e
           | Inr _ \<Rightarrow>
               (case unpack_inputs basis X of
                  Inl e \<Rightarrow> Inl e
                | Inr inputs \<Rightarrow> setup_basis basis inputs)))"

definition transform :: "'a features_method \<Rightarrow> 'a Basis_scheme \<Rightarrow> pyobj \<Rightarrow> error + ndarray" where
  "transform compute_features basis X =
     (case check_initialized basis of
        Inl e \<Rightarrow> Inl e
      | Inr _ \<Rightarrow>
          (case unpack_inputs basis X of
             Inl e \<Rightarrow> Inl e
           | Inr inputs \<Rightarrow> compute_features basis inputs))"

text \<open>\<open>fit_transform\<close>: the fitted basis and the features.\<close>

definition fit_transform :: "'a setup_method \<Rightarrow> 'a features_method \<Rightarrow> 'a Basis_scheme \<Rightarrow> pyobj \<Rightarrow>
    pyobj option \<Rightarrow> error + ('a Basis_scheme \<times> ndarray)" where
  "fit_transform setup_basis compute_features basis X y =
     (case fit setup_basis basis X y of
        Inl e \<Rightarrow> Inl e
      | Inr basis' \<Rightarrow>
          (case transform compute_features basis' X of
             Inl e \<Rightarrow> Inl e
           | Inr out \<Rightarrow> Inr (basis', out)))"

section \<open>The transformer: composition\<close>

text \<open>
  Bases are objects with identity: the store is the list of the objects allocated so
  far and an address is an index into it. A composite (an \<open>AdditiveBasis\<close> or a
  \<open>MultiplicativeBasis\<close>) refers to its two operands by address. The attributes of an
  object other than these two references are its configuration, of a type left open.
\<close>

type_synonym addr = nat

datatype composite = Additive | Multiplicative

datatype links = LeafK | CompositeK composite addr addr

datatype 'c basis_obj = BasisObj (config: 'c) (links: links)

type_synonym 'c heap = "'c basis_obj list"

record TransformerBasis =
  basis_ref :: addr

definition alloc :: "'c heap \<Rightarrow> 'c basis_obj \<Rightarrow> 'c heap \<times> addr" where
  "alloc h obj = (h @ [obj], length h)"

text \<open>
  \<open>copy.deepcopy\<close> of the standard library: every object reachable from the argument is
  copied once (the memo maps an original to its copy, so sharing is kept) and the
  copies refer to copies. Nothing is written to an object that exists already. The
  copy of an object is allocated after the copies of its operands. The result is
  \<open>None\<close> on a store that no sequence of constructor calls builds: an address that is
  not allocated, or an operand that is not older than its composite.
\<close>

function copy_rec :: "addr \<Rightarrow> 'c heap \<times> (addr \<times> addr) list \<Rightarrow>
    (('c heap \<times> (addr \<times> addr) list) \<times> addr) option" where
  "copy_rec a (h, memo) =
     (case map_of memo a of
        Some a' \<Rightarrow> Some ((h, memo), a')
      | None \<Rightarrow>
          if length h \<le> a then None
          else
            (case links (h ! a) of
               LeafK \<Rightarrow> Some ((h @ [h ! a], (a, length h) # memo), length h)
             | CompositeK k l r \<Rightarrow>
                 if l < a \<and> r < a then
                   (case copy_rec l (h, memo) of
                      None \<Rightarrow> None
                    | Some ((h1, m1), l') \<Rightarrow>
                        (case copy_rec r (h1, m1) of
                           None \<Rightarrow> None
                         | Some ((h2, m2), r') \<Rightarrow>
                             Some ((h2 @ [BasisObj (config (h ! a)) (CompositeK k l' r')],
                                    (a, length h2) # m2), length h2)))
                 else None))"
  by pat_completeness auto
termination
  by (relation "measure (\<lambda>(a, s). a)") auto

declare copy_rec.simps [simp del]

definition deepcopy :: "'c heap \<Rightarrow> addr \<Rightarrow> ('c heap \<times> addr) option" where
  "deepcopy h a =
     (case copy_rec a (h, []) of
        None \<Rightarrow> None
      | Some ((h', _), a') \<Rightarrow> Some (h', a'))"

text \<open>\<open>TransformerBasis.__init__\<close>: the transformer refers to a deep copy.\<close>

definition TransformerBasis_init :: "'c heap \<Rightarrow> addr \<Rightarrow> ('c heap \<times> TransformerBasis) option" where
  "TransformerBasis_init h basis =
     (case deepcopy h basis of
        None \<Rightarrow> None
      | Some (h', a') \<Rightarrow> Some (h', \<lparr>basis_ref = a'\<rparr>))"

text \<open>
  Modelled from the spec: \<open>Basis.__add__\<close> and \<open>Basis.__mul__\<close>, which are not part of the
  sources at hand. The spec: a composite is a new basis that holds its two operands
  (a binary tree), and composing does not mutate either operand. How the
  configuration of the composite comes from those of the operands (the counts of
  basis functions add or multiply, the labels are joined) is the parameter \<open>cfg\<close>.
\<close>

definition Basis_compose :: "composite \<Rightarrow> (composite \<Rightarrow> 'c \<Rightarrow> 'c \<Rightarrow> 'c) \<Rightarrow> 'c heap \<Rightarrow> addr \<Rightarrow> addr \<Rightarrow>
    'c heap \<times> addr" where
  "Basis_compose k cfg h a b =
     alloc h (BasisObj (cfg k (config (h ! a)) (config (h ! b))) (CompositeK k a b))"

definition Basis_add :: "(composite \<Rightarrow> 'c \<Rightarrow> 'c \<Rightarrow> 'c) \<Rightarrow> 'c heap \<Rightarrow> addr \<Rightarrow> addr \<Rightarrow> 'c heap \<times> addr" where
  "Basis_add = Basis_compose Additive"

definition Basis_mul :: "(composite \<Rightarrow> 'c \<Rightarrow> 'c \<Rightarrow> 'c) \<Rightarrow> 'c heap \<Rightarrow> addr \<Rightarrow> addr \<Rightarrow> 'c heap \<times> addr" where
  "Basis_mul = Basis_compose Multiplicative"

text \<open>
  Modelled from the spec: \<open>Basis.__pow__\<close>, which is not part of the sources at hand. The
  spec: exponentiation by a positive integer \<open>k\<close> multiplies the basis by itself \<open>k\<close>
  times; it fails with a type error for an exponent that is not an integer and with
  a value error for an exponent below 1.
\<close>

datatype exponent = IntExp int | OtherExp

fun mul_loop :: "(composite \<Rightarrow> 'c \<Rightarrow> 'c \<Rightarrow> 'c) \<Rightarrow> nat \<Rightarrow> addr \<Rightarrow> 'c heap \<times> addr \<Rightarrow> 'c heap \<times> addr" where
  "mul_loop cfg 0 self (h, result) = (h, result)"
| "mul_loop cfg (Suc n) self (h, result) = mul_loop cfg n self (Basis_mul cfg h result self)"

definition Basis_pow :: "(composite \<Rightarrow> 'c \<Rightarrow> 'c \<Rightarrow> 'c) \<Rightarrow> 'c heap \<Rightarrow> addr \<Rightarrow> exponent \<Rightarrow>
    error + ('c heap \<times> addr)" where
  "Basis_pow cfg h self e =
     (case e of
        OtherExp \<Rightarrow> Inl (Error TypeError ExponentNotInteger)
      | IntExp k \<Rightarrow>
          if k < 1 then Inl (Error ValueError ExponentNotPositive)
          else Inr (mul_loop cfg (nat (k - 1)) self (h, self)))"

text \<open>
  \<open>TransformerBasis.__add__\<close>, \<open>__mul__\<close> and \<open>__pow__\<close>: compose the two bases, then
  construct a transformer from the composite.
\<close>

definition TransformerBasis_add :: "(composite \<Rightarrow> 'c \<Rightarrow> 'c \<Rightarrow> 'c) \<Rightarrow> 'c heap \<Rightarrow> TransformerBasis \<Rightarrow>
    TransformerBasis \<Rightarrow> ('c heap \<times> TransformerBasis) option" where
  "TransformerBasis_add cfg h self other =
     (case Basis_add cfg h (basis_ref self) (basis_ref other) of
        (h1, c) \<Rightarrow> TransformerBasis_init h1 c)"

definition TransformerBasis_mul :: "(composite \<Rightarrow> 'c \<Rightarrow> 'c \<Rightarrow> 'c) \<Rightarrow> 'c heap \<Rightarrow> TransformerBasis \<Rightarrow>
    TransformerBasis \<Rightarrow> ('c heap \<times> TransformerBasis) option" where
  "TransformerBasis_mul cfg h self other =
     (case Basis_mul cfg h (basis_ref self) (basis_ref other) of
        (h1, c) \<Rightarrow> TransformerBasis_init h1 c)"

definition TransformerBasis_pow :: "(composite \<Rightarrow> 'c \<Rightarrow> 'c \<Rightarrow> 'c) \<Rightarrow> 'c heap \<Rightarrow> TransformerBasis \<Rightarrow>
    exponent \<Rightarrow> (error + ('c heap \<times> TransformerBasis)) option" where
  "TransformerBasis_pow cfg h self e =
     (case Basis_pow cfg h (basis_ref self) e of
        Inl err \<Rightarrow> Some (Inl err)
      | Inr (h1, c) \<Rightarrow>
          (case TransformerBasis_init h1 c of
             None \<Rightarrow> None
           | Some r \<Rightarrow> Some (Inr r)))"

text \<open>
  Assigning through the transformer (\<open>__setattr__\<close> forwards to the basis) or to an
  object below it: the configuration at one address is replaced.
\<close>

definition set_config :: "'c heap \<Rightarrow> addr \<Rightarrow> 'c \<Rightarrow> 'c heap" where
  "set_config h a c = (if a < length h then h[a := BasisObj c (links (h ! a))] else h)"

subsection \<open>What a store holds\<close>

text \<open>The stores that constructor calls build: an operand is older than its composite.\<close>

definition links_below :: "nat \<Rightarrow> links \<Rightarrow> bool" where
  "links_below a k = (case k of LeafK \<Rightarrow> True | CompositeK _ l r \<Rightarrow> l < a \<and> r < a)"

definition wf_heap :: "'c heap \<Rightarrow> bool" where
  "wf_heap h \<longleftrightarrow> (\<forall>a < length h. links_below a (links (h ! a)))"

text \<open>A later store in which every object of an earlier one is as it was.\<close>

definition extends :: "'c heap \<Rightarrow> 'c heap \<Rightarrow> bool" where
  "extends h h' \<longleftrightarrow> length h \<le> length h' \<and> (\<forall>a < length h. h' ! a = h ! a)"

text \<open>The objects a basis is made of.\<close>

inductive reach :: "'c heap \<Rightarrow> addr \<Rightarrow> addr \<Rightarrow> bool" for h :: "'c heap" and a :: addr where
  reach_self: "reach h a a"
| reach_left: "reach h a b \<Longrightarrow> b < length h \<Longrightarrow> links (h ! b) = CompositeK k l r \<Longrightarrow> reach h a l"
| reach_right: "reach h a b \<Longrightarrow> b < length h \<Longrightarrow> links (h ! b) = CompositeK k l r \<Longrightarrow> reach h a r"

text \<open>
  A basis read off the store as a value: the tree of configurations. Two bases with
  the same tree compute the same features on every input, whatever the addresses.
\<close>

datatype 'c basis_tree =
    LeafT 'c
  | CompositeT composite 'c "'c basis_tree" "'c basis_tree"

function tree_of :: "'c heap \<Rightarrow> addr \<Rightarrow> 'c basis_tree option" where
  "tree_of h a =
     (if length h \<le> a then None
      else
        (case links (h ! a) of
           LeafK \<Rightarrow> Some (LeafT (config (h ! a)))
         | CompositeK k l r \<Rightarrow>
             if l < a \<and> r < a then
               (case tree_of h l of
                  None \<Rightarrow> None
                | Some lt \<Rightarrow>
                    (case tree_of h r of
                       None \<Rightarrow> None
                     | Some rt \<Rightarrow> Some (CompositeT k (config (h ! a)) lt rt)))
             else None))"
  by pat_completeness auto
termination
  by (relation "measure (\<lambda>(h, a). a)") auto

declare tree_of.simps [simp del]

definition root_config :: "'c basis_tree \<Rightarrow> 'c" where
  "root_config t = (case t of LeafT c \<Rightarrow> c | CompositeT _ c _ _ \<Rightarrow> c)"

text \<open>The product of two bases, and of a basis with itself, as trees.\<close>

definition product :: "(composite \<Rightarrow> 'c \<Rightarrow> 'c \<Rightarrow> 'c) \<Rightarrow> composite \<Rightarrow> 'c basis_tree \<Rightarrow> 'c basis_tree \<Rightarrow>
    'c basis_tree" where
  "product cfg k s t = CompositeT k (cfg k (root_config s) (root_config t)) s t"

text \<open>\<open>k + 1\<close> factors, associated to the left: \<open>((t * t) * t) * ...\<close>\<close>

fun self_product :: "(composite \<Rightarrow> 'c \<Rightarrow> 'c \<Rightarrow> 'c) \<Rightarrow> 'c basis_tree \<Rightarrow> nat \<Rightarrow> 'c basis_tree" where
  "self_product cfg t 0 = t"
| "self_product cfg t (Suc k) = product cfg Multiplicative (self_product cfg t k) t"

text \<open>
  While a copy is made of a store with \<open>n0\<close> objects: the objects from \<open>n0\<close> on are
  copies and refer to copies, and the memo relates originals to copies with the same
  tree.
\<close>

definition links_from :: "nat \<Rightarrow> links \<Rightarrow> bool" where
  "links_from n0 k = (case k of LeafK \<Rightarrow> True | CompositeK _ l r \<Rightarrow> n0 \<le> l \<and> n0 \<le> r)"

definition copy_inv :: "nat \<Rightarrow> 'c heap \<Rightarrow> (addr \<times> addr) list \<Rightarrow> bool" where
  "copy_inv n0 h memo \<longleftrightarrow>
     n0 \<le> length h \<and> wf_heap h \<and>
     (\<forall>b. n0 \<le> b \<and> b < length h \<longrightarrow> links_from n0 (links (h ! b))) \<and>
     (\<forall>(a, a') \<in> set memo. a < n0 \<and> n0 \<le> a' \<and> a' < length h \<and> tree_of h a' = tree_of h a)"

text \<open>
  What composing must leave alone: every object of the store before the call is as
  it was, so every basis of that store reads as the same tree.
\<close>

definition left_alone :: "'c heap \<Rightarrow> 'c heap \<Rightarrow> bool" where
  "left_alone h h' \<longleftrightarrow> extends h h' \<and> (\<forall>a < length h. tree_of h' a = tree_of h a)"

text \<open>
  A transformer made by composing: the store before the call is left alone, the
  basis of the transformer is made of objects allocated by the call only, and
  assigning a configuration to any of them leaves the store before the call alone.
\<close>

definition new_composite :: "'c heap \<Rightarrow> 'c heap \<Rightarrow> TransformerBasis \<Rightarrow> bool" where
  "new_composite h h' tb \<longleftrightarrow>
     left_alone h h' \<and>
     (\<forall>x. reach h' (basis_ref tb) x \<longrightarrow> length h \<le> x \<and> x < length h') \<and>
     (\<forall>x v. reach h' (basis_ref tb) x \<longrightarrow> left_alone h (set_config h' x v))"

text \<open>
  A configuration for examples, the number of basis functions: the sum for an
  additive composite and the product for a multiplicative one.
\<close>

definition count_cfg :: "composite \<Rightarrow> nat \<Rightarrow> nat \<Rightarrow> nat" where
  "count_cfg k m n = (case k of Additive \<Rightarrow> m + n | Multiplicative \<Rightarrow> m * n)"

section \<open>The structured feature container\<close>

text \<open>
  Modelled from the spec: the class \<open>FeaturePytree\<close>, which is not part of the sources
  at hand (only a script that uses it is). The spec: a mapping from string key to
  array block; all blocks share the same size along the first axis; values must be
  numeric arrays, never scalars or non-array types; setting a key validates length
  and array-ness against the existing entries, or establishes the length if it is
  the first entry, and fails with a value error otherwise.
\<close>

record FeaturePytree =
  entries :: "(string \<times> ndarray) list"

definition leading :: "ndarray \<Rightarrow> nat option" where
  "leading a = (case shape a of [] \<Rightarrow> None | n # _ \<Rightarrow> Some n)"

definition num_samples :: "FeaturePytree \<Rightarrow> nat option" where
  "num_samples fp = (case entries fp of [] \<Rightarrow> None | (_, a) # _ \<Rightarrow> leading a)"

text \<open>
  Item assignment returns the container after the call and the exception raised, if
  any.
\<close>

definition setitem :: "FeaturePytree \<Rightarrow> string \<Rightarrow> pyobj \<Rightarrow> FeaturePytree \<times> error option" where
  "setitem fp key v =
     (case v of
        NoArray \<Rightarrow> (fp, Some (Error ValueError LeafNotArray))
      | Array a \<Rightarrow>
          (case leading a of
             None \<Rightarrow> (fp, Some (Error ValueError LeafNotArray))
           | Some n \<Rightarrow>
               (case num_samples fp of
                  None \<Rightarrow> (fp\<lparr>entries := AList.update key a (entries fp)\<rparr>, None)
                | Some m \<Rightarrow>
                    if n \<noteq> m then (fp, Some (Error ValueError (LengthMismatch m n)))
                    else (fp\<lparr>entries := AList.update key a (entries fp)\<rparr>, None))))"

text \<open>Construction from named arrays assigns them one by one.\<close>

fun setitems :: "FeaturePytree \<Rightarrow> (string \<times> pyobj) list \<Rightarrow> error + FeaturePytree" where
  "setitems fp [] = Inr fp"
| "setitems fp ((k, v) # kvs) =
     (case setitem fp k v of
        (_, Some e) \<Rightarrow> Inl e
      | (fp', None) \<Rightarrow> setitems fp' kvs)"

definition FeaturePytree_init :: "(string \<times> pyobj) list \<Rightarrow> error + FeaturePytree" where
  "FeaturePytree_init kvs = setitems \<lparr>entries = []\<rparr> kvs"

definition zeros :: "nat list \<Rightarrow> ndarray" where
  "zeros shp = \<lparr>shape = shp, data = replicate (prod_list shp) 0\<rparr>"

section \<open>The words of the specification\<close>

text \<open>
  Peaks as the specification describes them: \<open>n\<close> evenly spaced points from 0 to the
  last peak, \<open>delta\<close> apart, and the value of the \<open>j\<close>-th bump at a sample \<open>x\<close>.
\<close>

definition spec_peak :: "real \<Rightarrow> int \<Rightarrow> nat \<Rightarrow> real" where
  "spec_peak last_peak n j = real j * last_peak / (real_of_int n - 1)"

definition spec_delta :: "real \<Rightarrow> int \<Rightarrow> real" where
  "spec_delta last_peak n = last_peak / (real_of_int n - 1)"

definition spec_entry :: "real \<Rightarrow> int \<Rightarrow> real \<Rightarrow> real \<Rightarrow> nat \<Rightarrow> real" where
  "spec_entry last_peak n w x j =
     0.5 * (cos (clip (pi * (x - spec_peak last_peak n j) / (spec_delta last_peak n * w)) (- pi) pi) + 1)"

text \<open>
  The widths that are refused: at most 1, or with \<open>2 * width\<close> further from the nearest
  integer \<open>r\<close> than the tolerance \<open>1e-08 + 1e-05 * |r|\<close>.
\<close>

definition width_rejected :: "real \<Rightarrow> bool" where
  "width_rejected w \<longleftrightarrow>
     w \<le> 1 \<or> 1 / 10 ^ 8 + 1 / 10 ^ 5 * \<bar>real_of_int (py_round (2 * w))\<bar>
                < \<bar>2 * w - real_of_int (py_round (2 * w))\<bar>"

section \<open>Validation of the width\<close>

lemma py_round_of_int: "py_round (of_int k) = k"
  by (simp add: py_round_def)

lemma isclose_refl: "isclose a a"
  by (simp add: isclose_def)

lemma check_width_eq:
  "check_width w = (if width_rejected w then Inl (Error ValueError (InvalidWidth (2 * w))) else Inr ())"
  by (auto simp add: check_width_def width_rejected_def isclose_def mult.commute)

lemma integral_not_rejected:
  assumes "1 < w" and "2 * w \<in> \<int>"
  shows "\<not> width_rejected w"
proof -
  from assms(2) obtain k where k: "2 * w = of_int k" by (auto elim: Ints_cases)
  show ?thesis using assms(1) by (simp add: width_rejected_def k py_round_of_int)
qed

text \<open>
  C4, as amended. Constructing a raised cosine basis, linear or logarithmic (once
  the constructor of \<open>Basis\<close> has returned), or assigning to \<open>width\<close> raises \<open>ValueError\<close>, with the
  computed \<open>2 * width\<close> in the message, if and only if \<open>width \<le> 1\<close> or \<open>2 * width\<close> is
  not within the tolerance of \<open>np.isclose\<close> of the nearest integer; otherwise the
  width is stored. Every width above 1 with \<open>2 * width\<close> integral is accepted, every
  width up to 1 is refused.
\<close>

theorem width_validation:
  "(width_rejected w \<longrightarrow>
      set_width w self = Inl (Error ValueError (InvalidWidth (2 * w))) \<and>
      RaisedCosineBasisLinear_init (Inr ()) n w bnds = Inl (Error ValueError (InvalidWidth (2 * w))) \<and>
      RaisedCosineBasisLog_init (Inr ()) n w ts decay bnds
        = Inl (Error ValueError (InvalidWidth (2 * w)))) \<and>
   (\<not> width_rejected w \<longrightarrow>
      set_width w self = Inr (self\<lparr>width := w\<rparr>) \<and>
      RaisedCosineBasisLinear_init (Inr ()) n w bnds =
        Inr \<lparr>n_basis_funcs = n, bounds = bnds, width = w, rescale_samples = True\<rparr>) \<and>
   (1 < w \<and> 2 * w \<in> \<int> \<longrightarrow> \<not> width_rejected w) \<and>
   (w \<le> 1 \<longrightarrow> width_rejected w)"
  using integral_not_rejected [of w]
  by (simp add: set_width_def RaisedCosineBasisLinear_init_def RaisedCosineBasisLog_init_def
      check_width_eq)
     (simp add: width_rejected_def)

theorem width_validation_witness:
  "width_rejected (1 / 2) \<and> \<not> width_rejected 2 \<and> (1::real) < 2 \<and> 2 * (2::real) \<in> \<int>
   \<and> set_width (1 / 2) \<lparr>n_basis_funcs = 5, bounds = None, width = 2, rescale_samples = True\<rparr>
       = Inl (Error ValueError (InvalidWidth 1))
   \<and> RaisedCosineBasisLinear_init (Inr ()) 5 2 None
       = Inr \<lparr>n_basis_funcs = 5, bounds = None, width = 2, rescale_samples = True\<rparr>"
proof -
  have a: "width_rejected (1 / 2)" by (simp add: width_rejected_def)
  have b: "(1::real) < 2 \<and> 2 * (2::real) \<in> \<int>" by simp
  from width_validation [where w = "1 / 2" and n = 5 and bnds = None
      and self = "\<lparr>n_basis_funcs = 5, bounds = None, width = 2, rescale_samples = True\<rparr>"]
    width_validation [where w = 2 and n = 5 and bnds = None
      and self = "\<lparr>n_basis_funcs = 5, bounds = None, width = 2, rescale_samples = True\<rparr>"] a b
  show ?thesis by simp
qed

text \<open>
  C4 as stated fails: the width 1.500001 is above 1 and twice it is not an integer,
  yet the check accepts it, because \<open>np.isclose\<close> compares with a tolerance.
\<close>

theorem width_counterexample:
  "\<not> (isl (check_width (1500001 / 1000000)) \<longleftrightarrow>
        (1500001 / 1000000 \<le> (1::real) \<or> 2 * (1500001 / 1000000 :: real) \<notin> \<int>))"
proof -
  have "check_width (1500001 / 1000000) = Inr ()"
    by (simp add: check_width_def isclose_def py_round_def)
  moreover have "2 * (1500001 / 1000000 :: real) \<notin> \<int>"
  proof
    assume "2 * (1500001 / 1000000 :: real) \<in> \<int>"
    then have "frac (2 * (1500001 / 1000000 :: real)) = 0" by (simp only: frac_eq_0_iff)
    then show False by (simp add: frac_def)
  qed
  ultimately show ?thesis by simp
qed

section \<open>Evaluation of the linear basis\<close>

lemma linspace_closed_form:
  assumes "2 \<le> num"
  shows "linspace 0 b num = Inr (map (spec_peak b num) [0..<nat num])"
proof -
  define n where "n = nat num"
  have n: "2 \<le> n" and rn: "real (n - 1) = real_of_int num - 1"
    using assms by (auto simp: n_def)
  have "(map (\<lambda>k. real k * (b / real (n - 1)) + 0) [0..<n])[n - 1 := b]
        = map (spec_peak b num) [0..<n]"
  proof (rule nth_equalityI)
    show "length ((map (\<lambda>k. real k * (b / real (n - 1)) + 0) [0..<n])[n - 1 := b])
          = length (map (spec_peak b num) [0..<n])" by simp
  next
    fix k assume "k < length ((map (\<lambda>k. real k * (b / real (n - 1)) + 0) [0..<n])[n - 1 := b])"
    then have k: "k < n" by simp
    show "(map (\<lambda>k. real k * (b / real (n - 1)) + 0) [0..<n])[n - 1 := b] ! k
          = map (spec_peak b num) [0..<n] ! k"
    proof (cases "k = n - 1")
      case True
      have "real (n - 1) \<noteq> 0" using n by simp
      then have "real (n - 1) * b / real (n - 1) = b" by simp
      then show ?thesis using k True n by (simp add: spec_peak_def rn [symmetric])
    next
      case False
      then show ?thesis using k by (simp add: spec_peak_def rn [symmetric])
    qed
  qed
  then show ?thesis
    using assms n by (simp add: linspace_def n_def [symmetric] Let_def)
qed

lemma spec_peak_facts:
  assumes "2 \<le> n"
  shows "spec_peak b n 0 = 0" and "spec_peak b n (nat n - 1) = b"
    and "spec_peak b n (Suc j) - spec_peak b n j = spec_delta b n"
proof -
  have nz: "real_of_int n - 1 \<noteq> 0" using assms by simp
  show "spec_peak b n 0 = 0" by (simp add: spec_peak_def)
  have "real (nat n - 1) = real_of_int n - 1" using assms by auto
  then show "spec_peak b n (nat n - 1) = b" using nz by (simp add: spec_peak_def)
  show "spec_peak b n (Suc j) - spec_peak b n j = spec_delta b n"
    by (simp add: spec_peak_def spec_delta_def distrib_right add_divide_distrib)
qed

lemma read_global_unbound:
  "read_global ''min_max_rescale_samples''
     = Inl (Error NameError (NameNotDefined ''min_max_rescale_samples''))"
  by (simp add: read_global_def module_names_def)

text \<open>
  What the body computes on the path that does not rescale: the matrix of the
  specification's entries.
\<close>

lemma call_body_closed_form:
  assumes n: "2 \<le> n_basis_funcs self" and no: "\<not> rescale_samples self"
  shows "call_body rescale (linspace 0 b (n_basis_funcs self)) self xs
         = Inr (map (\<lambda>x. map (spec_entry b (n_basis_funcs self) (width self) x)
                  [0..<nat (n_basis_funcs self)]) xs)"
proof -
  let ?n = "n_basis_funcs self"
  let ?ps = "map (spec_peak b ?n) [0..<nat ?n]"
  have p0: "peak_at ?ps 0 = Inr 0" using n by (simp add: peak_at_def spec_peak_def)
  have p1: "peak_at ?ps 1 = Inr (spec_delta b ?n)"
    using n by (simp add: peak_at_def spec_peak_def spec_delta_def)
  have "raised_cosine (spec_delta b ?n - 0) (width self) ?ps xs
        = map (\<lambda>x. map (spec_entry b ?n (width self) x) [0..<nat ?n]) xs"
    by (simp add: raised_cosine_def spec_entry_def comp_def)
  then show ?thesis
    unfolding call_body_def linspace_closed_form [OF n] using no p0 p1 by simp
qed

lemma clip_inside: "lo \<le> x \<Longrightarrow> x \<le> hi \<Longrightarrow> clip x lo hi = x"
  by (simp add: clip_def)

lemma check_width_gt_1: "check_width w = Inr () \<Longrightarrow> 1 < w"
  by (simp add: check_width_def split: if_splits)

lemma check_n_basis_min_ge_2: "check_n_basis_min self = Inr () \<Longrightarrow> 2 \<le> n_basis_funcs self"
  by (simp add: check_n_basis_min_def split: if_splits)

text \<open>
  Every linear basis that the constructor returns rescales, and a call of a basis
  that rescales raises \<open>NameError\<close>, whatever the samples: the module reads the name
  \<open>min_max_rescale_samples\<close>, which it does not bind.
\<close>

lemma linear_init_rescales:
  "RaisedCosineBasisLinear_init basis_init n w bnds = Inr self \<Longrightarrow> rescale_samples self"
  by (auto simp: RaisedCosineBasisLinear_init_def split: sum.splits)

lemma linear_call_raises:
  "rescale_samples self \<Longrightarrow>
     RaisedCosineBasisLinear_call rescale self sample_pts
       = Inl (Error NameError (NameNotDefined ''min_max_rescale_samples''))"
  by (simp add: RaisedCosineBasisLinear_call_def call_body_def read_global_unbound)

text \<open>
  C1. The linear basis with five basis functions and width 2, called on the samples
  0, 1/2 and 1, returns no matrix of raised cosine values: the call raises
  \<open>NameError\<close>.
\<close>

theorem linear_call_name_error:
  "RaisedCosineBasisLinear_call (\<lambda>pts b. Inr (pts, 1))
      \<lparr>n_basis_funcs = 5, bounds = None, width = 2, rescale_samples = True\<rparr> [0, 1 / 2, 1]
    = Inl (Error NameError (NameNotDefined ''min_max_rescale_samples''))"
  by (simp add: RaisedCosineBasisLinear_call_def call_body_def read_global_def module_names_def)

section \<open>Peaks and evaluation of the logarithmic basis\<close>

lemma last_peak_decay:
  assumes "2 \<le> n" and "1 < w"
  shows "1 - w / (real_of_int n + w - 1) = (real_of_int n - 1) / (real_of_int n + w - 1)"
proof -
  have "real_of_int n + w - 1 \<noteq> 0" using assms by simp
  then show ?thesis by (simp add: field_simps)
qed

lemma cancel_factor: "(a::real) \<noteq> 0 \<Longrightarrow> a / m / a * w = w / m"
  by simp

lemma shifted_ratio:
  assumes "(m::real) \<noteq> 0" and "w \<noteq> 0"
  shows "(x - (m - w) / m) / (w / m) = 1 - (1 - x) * m / w"
  using assms by (simp add: field_simps)

lemma final_bump_argument:
  assumes n: "2 \<le> n" and w: "1 < w"
  shows "pi * (x - spec_peak (1 - w / (real_of_int n + w - 1)) n (nat n - 1))
            / (spec_delta (1 - w / (real_of_int n + w - 1)) n * w)
         = pi * (1 - (1 - x) * (real_of_int n + w - 1) / w)"
proof -
  let ?m = "real_of_int n + w - 1"
  have m: "?m \<noteq> 0" and n1: "real_of_int n - 1 \<noteq> 0" and w0: "w \<noteq> 0"
    using n w by simp_all
  have rn: "real (nat n - 1) = real_of_int n - 1" using n by auto
  have pk: "spec_peak (1 - w / ?m) n (nat n - 1) = (real_of_int n - 1) / ?m"
    by (simp only: spec_peak_facts(2) [OF n] last_peak_decay [OF n w])
  have "(real_of_int n - 1) / ?m / (real_of_int n - 1) * w = w / ?m"
    by (rule cancel_factor [OF n1])
  then have dl: "spec_delta (1 - w / ?m) n * w = w / ?m"
    by (simp only: spec_delta_def last_peak_decay [OF n w])
  have "real_of_int n - 1 = ?m - w" by simp
  then have eq: "(x - (real_of_int n - 1) / ?m) / (w / ?m) = 1 - (1 - x) * ?m / w"
    using shifted_ratio [OF m w0, of x] by (simp only:)
  have "pi * (x - (real_of_int n - 1) / ?m) / (w / ?m)
        = pi * ((x - (real_of_int n - 1) / ?m) / (w / ?m))"
    by (rule times_divide_eq_right [symmetric])
  also have "\<dots> = pi * (1 - (1 - x) * ?m / w)" by (simp only: eq)
  finally show ?thesis by (simp only: pk dl)
qed

lemma final_bump_zero:
  assumes n: "2 \<le> n" and w: "1 < w"
  shows "spec_entry (1 - w / (real_of_int n + w - 1)) n w 1 (nat n - 1) = 0"
  unfolding spec_entry_def final_bump_argument [OF n w]
  by (simp add: clip_def)

lemma final_bump_positive:
  assumes n: "2 \<le> n" and w: "1 < w"
    and x: "1 - w / (real_of_int n + w - 1) \<le> x" "x < 1"
  shows "0 < spec_entry (1 - w / (real_of_int n + w - 1)) n w x (nat n - 1)"
proof -
  let ?m = "real_of_int n + w - 1"
  let ?t = "pi * (1 - (1 - x) * ?m / w)"
  have m: "0 < ?m" and w0: "0 < w" using n w by simp_all
  have "(1 - x) * ?m \<le> w" using x(1) m by (simp add: field_simps)
  then have "(1 - x) * ?m / w \<le> 1" using w0 by (simp add: field_simps)
  then have lo: "0 \<le> ?t" by simp
  have "0 < (1 - x) * ?m / w" using x(2) m w0 by simp
  then have "1 - (1 - x) * ?m / w < 1" by simp
  then have "?t < pi * 1" by (rule mult_strict_left_mono) simp
  then have hi: "?t < pi" by simp
  have "- pi \<le> ?t" using lo pi_gt_zero by linarith
  moreover have "?t \<le> pi" using hi by simp
  ultimately have cl: "clip ?t (- pi) pi = ?t" by (rule clip_inside)
  have "cos pi < cos ?t" using lo hi by (intro cos_monotone_0_pi) simp_all
  then have "0 < cos ?t + 1" by simp
  then show ?thesis
    unfolding spec_entry_def final_bump_argument [OF n w] cl by simp
qed

text \<open>
  C2. For a logarithmic raised cosine basis with at least two basis functions and a
  valid width, the peaks are \<open>n_basis_funcs\<close> evenly spaced points from 0 to the last
  peak. The last peak is 1 when decay to zero is not enforced. When it is enforced,
  the last peak is \<open>1 - width / (n_basis_funcs + width - 1)\<close>, and the last bump is
  zero at the edge 1 of the domain and positive from its peak up to the edge.
\<close>

theorem log_peaks:
  assumes "check_n_basis_min self = Inr ()" and "check_width (width self) = Inr ()"
  shows "Log_compute_peaks self
       = Inr (map (spec_peak (Log_last_peak self) (n_basis_funcs self)) [0..<nat (n_basis_funcs self)]) \<and>
     spec_peak (Log_last_peak self) (n_basis_funcs self) 0 = 0 \<and>
     spec_peak (Log_last_peak self) (n_basis_funcs self) (nat (n_basis_funcs self) - 1)
       = Log_last_peak self \<and>
     (\<forall>j. spec_peak (Log_last_peak self) (n_basis_funcs self) (Suc j)
            - spec_peak (Log_last_peak self) (n_basis_funcs self) j
          = spec_delta (Log_last_peak self) (n_basis_funcs self)) \<and>
     (\<not> enforce_decay_to_zero self \<longrightarrow> Log_last_peak self = 1) \<and>
     (enforce_decay_to_zero self \<longrightarrow>
        Log_last_peak self = 1 - width self / (real_of_int (n_basis_funcs self) + width self - 1) \<and>
        spec_entry (Log_last_peak self) (n_basis_funcs self) (width self) 1
          (nat (n_basis_funcs self) - 1) = 0 \<and>
        (\<forall>x. Log_last_peak self \<le> x \<and> x < 1 \<longrightarrow>
           0 < spec_entry (Log_last_peak self) (n_basis_funcs self) (width self) x
                 (nat (n_basis_funcs self) - 1)))"
proof -
  have n: "2 \<le> n_basis_funcs self" by (rule check_n_basis_min_ge_2 [OF assms(1)])
  have w: "1 < width self" by (rule check_width_gt_1 [OF assms(2)])
  have peaks: "Log_compute_peaks self
       = Inr (map (spec_peak (Log_last_peak self) (n_basis_funcs self)) [0..<nat (n_basis_funcs self)])"
    unfolding Log_compute_peaks_def by (rule linspace_closed_form [OF n])
  have decay: "spec_entry (Log_last_peak self) (n_basis_funcs self) (width self) 1
          (nat (n_basis_funcs self) - 1) = 0 \<and>
        (\<forall>x. Log_last_peak self \<le> x \<and> x < 1 \<longrightarrow>
           0 < spec_entry (Log_last_peak self) (n_basis_funcs self) (width self) x
                 (nat (n_basis_funcs self) - 1))"
    if "enforce_decay_to_zero self"
    using that final_bump_zero [OF n w] final_bump_positive [OF n w]
    by (simp add: Log_last_peak_def)
  show ?thesis
    using peaks spec_peak_facts [OF n, of "Log_last_peak self"] decay
    by (simp add: Log_last_peak_def)
qed

theorem log_peaks_witness:
  "check_n_basis_min \<lparr>n_basis_funcs = 3, bounds = None, width = 2, rescale_samples = False,
       time_scaling = 50, enforce_decay_to_zero = True\<rparr> = Inr () \<and>
   check_width 2 = Inr () \<and>
   Log_last_peak \<lparr>n_basis_funcs = 3, bounds = None, width = 2, rescale_samples = False,
       time_scaling = 50, enforce_decay_to_zero = True\<rparr> = 1 / 2 \<and>
   Log_compute_peaks \<lparr>n_basis_funcs = 3, bounds = None, width = 2, rescale_samples = False,
       time_scaling = 50, enforce_decay_to_zero = True\<rparr> = Inr [0, 1 / 4, 1 / 2] \<and>
   spec_entry (1 / 2) 3 2 1 2 = 0"
proof -
  let ?b = "\<lparr>n_basis_funcs = 3, bounds = None, width = 2, rescale_samples = False,
       time_scaling = 50, enforce_decay_to_zero = True\<rparr>"
  have h1: "check_n_basis_min ?b = Inr ()" by (simp add: check_n_basis_min_def)
  have h2: "check_width (width ?b) = Inr ()"
    by (simp add: check_width_def isclose_def py_round_def)
  have lp: "Log_last_peak ?b = 1 / 2" by (simp add: Log_last_peak_def)
  have up: "[0..<3] = [0, 1, 2::nat]" by (simp add: upt_rec)
  from log_peaks [OF h1 h2] h1 h2 show ?thesis
    by (simp add: lp up spec_peak_def)
qed

text \<open>
  Assigning a \<open>time_scaling\<close> that is not positive raises \<open>ValueError\<close> and constructing
  with one fails with a \<open>ValueError\<close>; a positive one is stored, and the constructor
  accepts it together with any accepted width.
\<close>

lemma time_scaling_validation:
  "(ts \<le> 0 \<longrightarrow>
      set_time_scaling ts self = Inl (Error ValueError (TimeScalingNotPositive ts)) \<and>
      (\<exists>e. RaisedCosineBasisLog_init (Inr ()) n w (Some ts) decay bnds = Inl e \<and>
           exn_class e = ValueError)) \<and>
   (0 < ts \<longrightarrow>
      set_time_scaling ts self = Inr (self\<lparr>time_scaling := ts\<rparr>) \<and>
      (\<not> width_rejected w \<longrightarrow>
         RaisedCosineBasisLog_init (Inr ()) n w (Some ts) decay bnds
           = Inr \<lparr>n_basis_funcs = n, bounds = bnds, width = w, rescale_samples = False,
                  time_scaling = ts, enforce_decay_to_zero = decay\<rparr>))"
  by (simp add: set_time_scaling_def RaisedCosineBasisLog_init_def
      RaisedCosineBasisLinear_init_def check_width_eq check_time_scaling_def)

text \<open>
  A call of a logarithmic basis raises \<open>NameError\<close> before any sample is rescaled or
  stretched, whatever the basis and the samples: \<open>_transform_samples\<close> reads the name
  \<open>min_max_rescale_samples\<close>, which the module does not bind.
\<close>

lemma log_call_raises:
  "RaisedCosineBasisLog_call rescale self sample_pts
     = Inl (Error NameError (NameNotDefined ''min_max_rescale_samples''))"
  by (simp add: RaisedCosineBasisLog_call_def transform_samples_def read_global_unbound)

text \<open>
  C3. The logarithmic basis with five basis functions, width 2, \<open>time_scaling\<close> 50 and
  decay to zero, called on the samples 0, 1/2 and 1, neither rescales nor stretches
  them: the call raises \<open>NameError\<close>.
\<close>

theorem log_call_name_error:
  "RaisedCosineBasisLog_call (\<lambda>pts b. Inr (pts, 1))
      \<lparr>n_basis_funcs = 5, bounds = None, width = 2, rescale_samples = False,
         time_scaling = 50, enforce_decay_to_zero = True\<rparr> [0, 1 / 2, 1]
    = Inl (Error NameError (NameNotDefined ''min_max_rescale_samples''))"
  by (simp add: RaisedCosineBasisLog_call_def transform_samples_def read_global_def
      module_names_def)

section \<open>Fitting and transforming\<close>

text \<open>
  C6. While the input shape of the basis is not set (\<open>_n_basis_input_\<close> is \<open>None\<close>),
  \<open>fit\<close>, \<open>transform\<close> and \<open>fit_transform\<close> raise \<open>RuntimeError\<close> with the message that
  asks for a call of \<open>set_input_shape\<close>, whatever the input and whatever
  \<open>setup_basis\<close> and \<open>_compute_features\<close> would do: no features are computed.
\<close>

theorem uninitialized_fails:
  "n_basis_input basis = None \<Longrightarrow>
     fit setup_basis basis X y = Inl (Error RuntimeError NotInitialized) \<and>
     transform compute_features basis X = Inl (Error RuntimeError NotInitialized) \<and>
     fit_transform setup_basis compute_features basis X y = Inl (Error RuntimeError NotInitialized)"
  by (simp add: fit_def transform_def fit_transform_def check_initialized_def)

theorem uninitialized_fails_witness:
  "n_basis_input \<lparr>n_basis_input = None, list_components = [[]]\<rparr> = None \<and>
   fit (\<lambda>b xs. Inr b) \<lparr>n_basis_input = None, list_components = [[]]\<rparr> (Array (zeros [3, 1])) None
     = Inl (Error RuntimeError NotInitialized) \<and>
   transform (\<lambda>b xs. Inr (zeros [3, 1])) \<lparr>n_basis_input = None, list_components = [[]]\<rparr>
       (Array (zeros [3, 1]))
     = Inl (Error RuntimeError NotInitialized) \<and>
   fit_transform (\<lambda>b xs. Inr b) (\<lambda>b xs. Inr (zeros [3, 1]))
       \<lparr>n_basis_input = None, list_components = [[]]\<rparr> (Array (zeros [3, 1])) None
     = Inl (Error RuntimeError NotInitialized)"
  using uninitialized_fails [of "\<lparr>n_basis_input = None, list_components = [[]]\<rparr>"
      "\<lambda>b xs. Inr b" "Array (zeros [3, 1])" None "\<lambda>b xs. Inr (zeros [3, 1])"]
  by simp

text \<open>
  \<open>fit\<close> refuses every two-dimensional \<open>X\<close> whose number of columns differs from the sum
  of the remembered input widths, naming both numbers.
\<close>

lemma fit_column_mismatch:
  assumes "shape x = [n, c]" and "n_basis_input basis = Some nbi" and "sum_list nbi \<noteq> c"
  shows "fit setup_basis basis (Array x) y = Inl (Error ValueError (InputMismatch (sum_list nbi) c))"
  using assms by (simp add: fit_def check_initialized_def check_input_def)

text \<open>
  C5. \<open>transform\<close> does not run the check that \<open>fit\<close> runs: for a basis that expects one
  column, an \<open>X\<close> with two columns is not refused; its second column is dropped and
  the features of the first are returned.
\<close>

theorem transform_ignores_extra_columns:
  "transform (\<lambda>b xs. case xs of [x] \<Rightarrow> Inr x | _ \<Rightarrow> Inl (Error ValueError NotTwoDimensional))
      \<lparr>n_basis_input = Some [1], list_components = [[]]\<rparr>
      (Array \<lparr>shape = [2, 2], data = [1, 2, 3, 4]\<rparr>)
    = Inr \<lparr>shape = [2], data = [1, 3]\<rparr>"
  by (simp add: transform_def check_initialized_def unpack_inputs_def shape_at_def
      slice_cols_def reshape_def Let_def upt_rec)

text \<open>
  When \<open>X\<close> passes the check of its columns and \<open>y\<close> has another number of samples,
  \<open>fit\<close> raises \<open>AttributeError\<close>: the message of the intended \<open>ValueError\<close> reads
  \<open>X.shpae\<close>.
\<close>

lemma fit_sample_mismatch:
  assumes "shape x = [n, c]" and "n_basis_input basis = Some nbi" and "sum_list nbi = c"
    and "shape ya = m # rest" and "m \<noteq> n"
  shows "fit setup_basis basis (Array x) (Some (Array ya))
           = Inl (Error AttributeError (NoAttribute ''shpae''))"
  using assms by (simp add: fit_def check_initialized_def check_input_def shape_at_def)

text \<open>
  C10. For \<open>X\<close> of shape \<open>(3, 1)\<close>, one expected column and \<open>y\<close> of shape \<open>(2,)\<close>, \<open>fit\<close>
  raises \<open>AttributeError\<close> and not the \<open>ValueError\<close> about the numbers of samples.
\<close>

theorem fit_sample_mismatch_attribute_error:
  "fit (\<lambda>b xs. Inr b) \<lparr>n_basis_input = Some [1], list_components = [[]]\<rparr>
      (Array \<lparr>shape = [3, 1], data = [1, 2, 3]\<rparr>) (Some (Array \<lparr>shape = [2], data = [0, 1]\<rparr>))
    = Inl (Error AttributeError (NoAttribute ''shpae''))"
  by (simp add: fit_def check_initialized_def check_input_def shape_at_def)

section \<open>Composition of transformers\<close>

lemma tree_of_extends:
  "extends h h' \<Longrightarrow> a < length h \<Longrightarrow> tree_of h' a = tree_of h a"
proof (induction a rule: less_induct)
  case (less a)
  have same: "h' ! a = h ! a" and len: "a < length h'"
    using less.prems by (auto simp: extends_def)
  show ?case
  proof (cases "links (h ! a)")
    case LeafK
    then show ?thesis
      using same len less.prems(2)
      by (simp add: tree_of.simps [of h a] tree_of.simps [of h' a])
  next
    case (CompositeK k l r)
    show ?thesis
    proof (cases "l < a \<and> r < a")
      case True
      then have "tree_of h' l = tree_of h l" "tree_of h' r = tree_of h r"
        using less.IH less.prems by auto
      then show ?thesis
        using CompositeK True same len less.prems(2)
        by (simp add: tree_of.simps [of h a] tree_of.simps [of h' a] split: option.split)
    next
      case False
      then show ?thesis
        using CompositeK same len less.prems(2)
        by (auto simp add: tree_of.simps [of h a] tree_of.simps [of h' a])
    qed
  qed
qed

lemma tree_of_wf:
  "wf_heap h \<Longrightarrow> a < length h \<Longrightarrow> \<exists>t. tree_of h a = Some t \<and> root_config t = config (h ! a)"
proof (induction a rule: less_induct)
  case (less a)
  have below: "links_below a (links (h ! a))"
    using less.prems by (simp add: wf_heap_def)
  show ?case
  proof (cases "links (h ! a)")
    case LeafK
    then show ?thesis
      using less.prems(2) by (simp add: tree_of.simps [of h a] root_config_def)
  next
    case (CompositeK k l r)
    then have lr: "l < a" "r < a" using below by (simp_all add: links_below_def)
    then obtain lt rt where "tree_of h l = Some lt" "tree_of h r = Some rt"
      using less.IH [of l] less.IH [of r] less.prems by force
    then show ?thesis
      using CompositeK lr less.prems(2) by (simp add: tree_of.simps [of h a] root_config_def)
  qed
qed

lemma extends_refl: "extends h h"
  by (simp add: extends_def)

lemma extends_trans: "extends h1 h2 \<Longrightarrow> extends h2 h3 \<Longrightarrow> extends h1 h3"
  by (auto simp: extends_def)

lemma extends_append: "extends h (h @ xs)"
  by (simp add: extends_def nth_append)

lemma wf_heap_append:
  "wf_heap h \<Longrightarrow> links_below (length h) (links obj) \<Longrightarrow> wf_heap (h @ [obj])"
  by (auto simp: wf_heap_def nth_append less_Suc_eq)

lemma tree_of_new_leaf: "tree_of (h @ [BasisObj c LeafK]) (length h) = Some (LeafT c)"
  by (simp add: tree_of.simps [of _ "length h"])

lemma tree_of_new_composite:
  assumes "l < length h" and "r < length h"
  shows "tree_of (h @ [BasisObj c (CompositeK k l r)]) (length h)
         = (case tree_of h l of
              None \<Rightarrow> None
            | Some lt \<Rightarrow>
                (case tree_of h r of None \<Rightarrow> None | Some rt \<Rightarrow> Some (CompositeT k c lt rt)))"
  using assms tree_of_extends [OF extends_append, of l h] tree_of_extends [OF extends_append, of r h]
  by (simp add: tree_of.simps [of _ "length h"] cong: option.case_cong)

lemma copy_inv_append:
  assumes inv: "copy_inv n0 h memo" and a: "a < n0"
    and below: "links_below (length h) (links obj)" and "from": "links_from n0 (links obj)"
    and tree: "tree_of (h @ [obj]) (length h) = tree_of (h @ [obj]) a"
  shows "copy_inv n0 (h @ [obj]) ((a, length h) # memo)"
proof -
  have n0: "n0 \<le> length h" and wf: "wf_heap h"
    and fresh: "\<forall>b. n0 \<le> b \<and> b < length h \<longrightarrow> links_from n0 (links (h ! b))"
    and memo: "\<forall>(x, x') \<in> set memo. x < n0 \<and> n0 \<le> x' \<and> x' < length h \<and> tree_of h x' = tree_of h x"
    using inv by (simp_all add: copy_inv_def)
  have wf': "wf_heap (h @ [obj])" by (rule wf_heap_append [OF wf below])
  have fresh': "\<forall>b. n0 \<le> b \<and> b < length (h @ [obj]) \<longrightarrow> links_from n0 (links ((h @ [obj]) ! b))"
    using fresh "from" by (auto simp: nth_append less_Suc_eq)
  have old: "x < n0 \<and> n0 \<le> x' \<and> x' < length (h @ [obj])
         \<and> tree_of (h @ [obj]) x' = tree_of (h @ [obj]) x" if "(x, x') \<in> set memo" for x x'
  proof -
    from memo that have m: "x < n0" "n0 \<le> x'" "x' < length h" "tree_of h x' = tree_of h x"
      by auto
    have "tree_of (h @ [obj]) x' = tree_of h x'"
      by (rule tree_of_extends [OF extends_append m(3)])
    moreover have "tree_of (h @ [obj]) x = tree_of h x"
      using m(1) n0 by (intro tree_of_extends [OF extends_append]) simp
    ultimately show ?thesis using m by simp
  qed
  show ?thesis
    unfolding copy_inv_def using n0 wf' fresh' a tree old by auto
qed

lemma copy_rec_correct:
  assumes "copy_inv n0 h memo" and "a < n0"
  shows "\<exists>h' memo' a'. copy_rec a (h, memo) = Some ((h', memo'), a') \<and> copy_inv n0 h' memo' \<and>
           extends h h' \<and> n0 \<le> a' \<and> a' < length h' \<and> tree_of h' a' = tree_of h' a"
  using assms
proof (induction a arbitrary: h memo rule: less_induct)
  case (less a)
  note inv = less.prems(1) and a = less.prems(2)
  have n0: "n0 \<le> length h" and wf: "wf_heap h"
    and memo: "\<forall>(x, x') \<in> set memo. x < n0 \<and> n0 \<le> x' \<and> x' < length h \<and> tree_of h x' = tree_of h x"
    using inv by (simp_all add: copy_inv_def)
  have alen: "a < length h" using a n0 by simp
  show ?case
  proof (cases "map_of memo a")
    case (Some a')
    then have "(a, a') \<in> set memo" by (rule map_of_SomeD)
    with memo have "n0 \<le> a'" "a' < length h" "tree_of h a' = tree_of h a" by auto
    then show ?thesis
      using Some inv by (simp add: copy_rec.simps [of a h memo] extends_refl)
  next
    case None
    show ?thesis
    proof (cases "links (h ! a)")
      case LeafK
      let ?h' = "h @ [h ! a]"
      have obj: "h ! a = BasisObj (config (h ! a)) LeafK"
        using LeafK by (cases "h ! a") simp
      have res: "copy_rec a (h, memo) = Some ((?h', (a, length h) # memo), length h)"
        using None alen LeafK by (simp add: copy_rec.simps [of a h memo])
      have "tree_of ?h' (length h) = Some (LeafT (config (h ! a)))"
        using tree_of_new_leaf [of h "config (h ! a)"] obj by simp
      moreover have "tree_of ?h' a = tree_of h a"
        by (rule tree_of_extends [OF extends_append alen])
      moreover have "tree_of h a = Some (LeafT (config (h ! a)))"
        using alen LeafK by (simp add: tree_of.simps [of h a])
      ultimately have tree: "tree_of ?h' (length h) = tree_of ?h' a" by simp
      have inv': "copy_inv n0 ?h' ((a, length h) # memo)"
        using LeafK by (intro copy_inv_append [OF inv a _ _ tree]) (simp_all add: links_below_def links_from_def)
      show ?thesis
        using res inv' n0 tree by (simp add: extends_append)
    next
      case (CompositeK k l r)
      have lr: "l < a" "r < a"
        using wf alen CompositeK by (auto simp: wf_heap_def links_below_def)
      then have lr0: "l < n0" "r < n0" using a by simp_all
      from less.IH [OF lr(1) inv lr0(1)] obtain h1 m1 l' where
        c1: "copy_rec l (h, memo) = Some ((h1, m1), l')" and inv1: "copy_inv n0 h1 m1"
        and e1: "extends h h1" and l': "n0 \<le> l'" "l' < length h1"
        and t1: "tree_of h1 l' = tree_of h1 l"
        by blast
      from less.IH [OF lr(2) inv1 lr0(2)] obtain h2 m2 r' where
        c2: "copy_rec r (h1, m1) = Some ((h2, m2), r')" and inv2: "copy_inv n0 h2 m2"
        and e2: "extends h1 h2" and r': "n0 \<le> r'" "r' < length h2"
        and t2: "tree_of h2 r' = tree_of h2 r"
        by blast
      let ?obj = "BasisObj (config (h ! a)) (CompositeK k l' r')"
      let ?h' = "h2 @ [?obj]"
      have e12: "extends h h2" by (rule extends_trans [OF e1 e2])
      have e': "extends h ?h'" by (rule extends_trans [OF e12 extends_append])
      have l2: "l' < length h2" using l'(2) e2 by (simp add: extends_def)
      have llen: "l < length h" "r < length h" using lr alen by simp_all
      have res: "copy_rec a (h, memo) = Some ((?h', (a, length h2) # m2), length h2)"
        using None alen CompositeK lr c1 c2 by (simp add: copy_rec.simps [of a h memo])
      have tl: "tree_of h2 l' = tree_of h l"
      proof -
        have "tree_of h2 l' = tree_of h1 l'" by (rule tree_of_extends [OF e2 l'(2)])
        also have "\<dots> = tree_of h1 l" by (rule t1)
        also have "\<dots> = tree_of h l" by (rule tree_of_extends [OF e1 llen(1)])
        finally show ?thesis .
      qed
      have tr: "tree_of h2 r' = tree_of h r"
        using t2 tree_of_extends [OF e12 llen(2)] by simp
      have "tree_of ?h' a = tree_of h a" by (rule tree_of_extends [OF e' alen])
      moreover have "tree_of h a
          = (case tree_of h l of
               None \<Rightarrow> None
             | Some lt \<Rightarrow>
                 (case tree_of h r of
                    None \<Rightarrow> None
                  | Some rt \<Rightarrow> Some (CompositeT k (config (h ! a)) lt rt)))"
        using alen CompositeK lr by (simp add: tree_of.simps [of h a])
      ultimately have tree: "tree_of ?h' (length h2) = tree_of ?h' a"
        using tree_of_new_composite [OF l2 r'(2), of "config (h ! a)" k] tl tr
        by (simp cong: option.case_cong)
      have inv': "copy_inv n0 ?h' ((a, length h2) # m2)"
        using l2 r' l'
        by (intro copy_inv_append [OF inv2 a _ _ tree]) (simp_all add: links_below_def links_from_def)
      have "n0 \<le> length h2" using inv2 by (simp add: copy_inv_def)
      then show ?thesis
        using res inv' e' tree by simp
    qed
  qed
qed

lemma reach_fresh:
  assumes fresh: "\<forall>b. n0 \<le> b \<and> b < length h \<longrightarrow> links_from n0 (links (h ! b))"
    and wf: "wf_heap h" and r: "reach h a b" and a: "n0 \<le> a" "a < length h"
  shows "n0 \<le> b \<and> b < length h"
  using r
proof (induction rule: reach.induct)
  case reach_self
  show ?case using a by simp
next
  case (reach_left b k l r)
  then show ?case
    using fresh wf by (fastforce simp: links_from_def wf_heap_def links_below_def)
next
  case (reach_right b k l r)
  then show ?case
    using fresh wf by (fastforce simp: links_from_def wf_heap_def links_below_def)
qed

lemma deepcopy_correct:
  assumes wf: "wf_heap h" and a: "a < length h"
  shows "\<exists>h' a'. deepcopy h a = Some (h', a') \<and> wf_heap h' \<and> extends h h' \<and>
           length h \<le> a' \<and> a' < length h' \<and> tree_of h' a' = tree_of h a \<and>
           (\<forall>b. reach h' a' b \<longrightarrow> length h \<le> b \<and> b < length h')"
proof -
  have inv: "copy_inv (length h) h []" using wf by (auto simp: copy_inv_def)
  from copy_rec_correct [OF inv a] obtain h' memo' a' where
    c: "copy_rec a (h, []) = Some ((h', memo'), a')" and inv': "copy_inv (length h) h' memo'"
    and e: "extends h h'" and a': "length h \<le> a'" "a' < length h'"
    and t: "tree_of h' a' = tree_of h' a"
    by blast
  have wf': "wf_heap h'"
    and fresh: "\<forall>b. length h \<le> b \<and> b < length h' \<longrightarrow> links_from (length h) (links (h' ! b))"
    using inv' by (simp_all add: copy_inv_def)
  have "tree_of h' a' = tree_of h a" using t tree_of_extends [OF e a] by simp
  moreover have "\<forall>b. reach h' a' b \<longrightarrow> length h \<le> b \<and> b < length h'"
    using reach_fresh [OF fresh wf' _ a'] by blast
  ultimately show ?thesis
    using c wf' e a' by (simp add: deepcopy_def)
qed

lemma tree_of_root:
  assumes "wf_heap h" and "a < length h" and "tree_of h a = Some t"
  shows "root_config t = config (h ! a)"
  using tree_of_wf [OF assms(1,2)] assms(3) by auto

lemma Basis_compose_correct:
  assumes wf: "wf_heap h" and a: "a < length h" and b: "b < length h"
    and s: "tree_of h a = Some s" and t: "tree_of h b = Some t"
  shows "\<exists>h1. Basis_compose k cfg h a b = (h1, length h) \<and> length h1 = Suc (length h) \<and>
           wf_heap h1 \<and> extends h h1 \<and> tree_of h1 (length h) = Some (product cfg k s t)"
proof -
  let ?obj = "BasisObj (cfg k (config (h ! a)) (config (h ! b))) (CompositeK k a b)"
  have "wf_heap (h @ [?obj])"
    using a b by (intro wf_heap_append [OF wf]) (simp add: links_below_def)
  moreover have "tree_of (h @ [?obj]) (length h) = Some (product cfg k s t)"
    using tree_of_new_composite [OF a b, of "cfg k (config (h ! a)) (config (h ! b))" k]
      tree_of_root [OF wf a s] tree_of_root [OF wf b t] s t
    by (simp add: product_def)
  ultimately show ?thesis
    by (simp add: Basis_compose_def alloc_def extends_append)
qed

lemma TransformerBasis_init_correct:
  assumes wf: "wf_heap h" and a: "a < length h"
  shows "\<exists>h' tb. TransformerBasis_init h a = Some (h', tb) \<and> wf_heap h' \<and> extends h h' \<and>
           basis_ref tb < length h' \<and> tree_of h' (basis_ref tb) = tree_of h a \<and>
           (\<forall>x. reach h' (basis_ref tb) x \<longrightarrow> length h \<le> x \<and> x < length h')"
proof -
  from deepcopy_correct [OF wf a] obtain h' a' where
    "deepcopy h a = Some (h', a')" "wf_heap h'" "extends h h'" "a' < length h'"
    "tree_of h' a' = tree_of h a" "\<forall>x. reach h' a' x \<longrightarrow> length h \<le> x \<and> x < length h'"
    by blast
  then show ?thesis by (simp add: TransformerBasis_init_def)
qed

lemma set_config_extends:
  "extends h h' \<Longrightarrow> length h \<le> x \<Longrightarrow> extends h (set_config h' x v)"
  by (simp add: extends_def set_config_def)

lemma compose_then_copy:
  assumes wf: "wf_heap h" and a: "a < length h" and b: "b < length h"
  shows "\<exists>h' tb s t. (case Basis_compose k cfg h a b of (h1, c) \<Rightarrow> TransformerBasis_init h1 c)
             = Some (h', tb) \<and>
           wf_heap h' \<and> extends h h' \<and> basis_ref tb < length h' \<and>
           tree_of h a = Some s \<and> tree_of h b = Some t \<and>
           tree_of h' (basis_ref tb) = Some (product cfg k s t) \<and>
           (\<forall>x. reach h' (basis_ref tb) x \<longrightarrow> length h \<le> x \<and> x < length h')"
proof -
  from tree_of_wf [OF wf a] obtain s where s: "tree_of h a = Some s" by blast
  from tree_of_wf [OF wf b] obtain t where t: "tree_of h b = Some t" by blast
  from Basis_compose_correct [OF wf a b s t, of k cfg] obtain h1 where
    c: "Basis_compose k cfg h a b = (h1, length h)" and len: "length h1 = Suc (length h)"
    and wf1: "wf_heap h1" and e1: "extends h h1"
    and t1: "tree_of h1 (length h) = Some (product cfg k s t)"
    by blast
  have c1: "length h < length h1" using len by simp
  from TransformerBasis_init_correct [OF wf1 c1] obtain h' tb where
    i: "TransformerBasis_init h1 (length h) = Some (h', tb)" and wf': "wf_heap h'"
    and e': "extends h1 h'" and tb: "basis_ref tb < length h'"
    and t': "tree_of h' (basis_ref tb) = tree_of h1 (length h)"
    and r: "\<forall>x. reach h' (basis_ref tb) x \<longrightarrow> length h1 \<le> x \<and> x < length h'"
    by blast
  have "\<forall>x. reach h' (basis_ref tb) x \<longrightarrow> length h \<le> x \<and> x < length h'"
    using r len by auto
  then show ?thesis
    using c i wf' extends_trans [OF e1 e'] tb s t t' t1 by simp
qed

lemma mul_loop_correct:
  assumes "wf_heap h" and "self < length h" and "r < length h"
    and "tree_of h self = Some t" and "tree_of h r = Some (self_product cfg t j)"
  shows "\<exists>h1 c. mul_loop cfg n self (h, r) = (h1, c) \<and> wf_heap h1 \<and> extends h h1 \<and>
           c < length h1 \<and> tree_of h1 c = Some (self_product cfg t (j + n))"
  using assms
proof (induction n arbitrary: h r j)
  case 0
  then show ?case by (simp add: extends_refl)
next
  case (Suc n)
  from Basis_compose_correct [OF Suc.prems(1,3,2,5,4), of Multiplicative cfg] obtain h1 where
    c: "Basis_mul cfg h r self = (h1, length h)" and len: "length h1 = Suc (length h)"
    and wf1: "wf_heap h1" and e1: "extends h h1"
    and t1: "tree_of h1 (length h) = Some (self_product cfg t (Suc j))"
    by (auto simp: Basis_mul_def)
  have self1: "self < length h1" and r1: "length h < length h1"
    using Suc.prems(2) len by simp_all
  have ts: "tree_of h1 self = Some t"
    using tree_of_extends [OF e1 Suc.prems(2)] Suc.prems(4) by simp
  from Suc.IH [OF wf1 self1 r1 ts t1] obtain h2 c2 where
    "mul_loop cfg n self (h1, length h) = (h2, c2)" "wf_heap h2" "extends h1 h2"
    "c2 < length h2" "tree_of h2 c2 = Some (self_product cfg t (Suc j + n))"
    by blast
  then show ?case
    using c extends_trans [OF e1] by simp
qed

lemma pow_then_copy:
  assumes wf: "wf_heap h" and a: "basis_ref self < length h" and k: "1 \<le> k"
  shows "\<exists>h' tb t. TransformerBasis_pow cfg h self (IntExp k) = Some (Inr (h', tb)) \<and>
           wf_heap h' \<and> extends h h' \<and> basis_ref tb < length h' \<and>
           tree_of h (basis_ref self) = Some t \<and>
           tree_of h' (basis_ref tb) = Some (self_product cfg t (nat (k - 1))) \<and>
           (\<forall>x. reach h' (basis_ref tb) x \<longrightarrow> length h \<le> x \<and> x < length h')"
proof -
  from tree_of_wf [OF wf a] obtain t where t: "tree_of h (basis_ref self) = Some t" by blast
  have t0: "tree_of h (basis_ref self) = Some (self_product cfg t 0)" using t by simp
  from mul_loop_correct [OF wf a a t t0, of "nat (k - 1)"] obtain h1 c where
    m: "mul_loop cfg (nat (k - 1)) (basis_ref self) (h, basis_ref self) = (h1, c)"
    and wf1: "wf_heap h1" and e1: "extends h h1" and c: "c < length h1"
    and t1: "tree_of h1 c = Some (self_product cfg t (nat (k - 1)))"
    by auto
  from TransformerBasis_init_correct [OF wf1 c] obtain h' tb where
    i: "TransformerBasis_init h1 c = Some (h', tb)" and wf': "wf_heap h'"
    and e': "extends h1 h'" and tb: "basis_ref tb < length h'"
    and t': "tree_of h' (basis_ref tb) = tree_of h1 c"
    and r: "\<forall>x. reach h' (basis_ref tb) x \<longrightarrow> length h1 \<le> x \<and> x < length h'"
    by blast
  have "length h \<le> length h1" using e1 by (simp add: extends_def)
  then have "\<forall>x. reach h' (basis_ref tb) x \<longrightarrow> length h \<le> x \<and> x < length h'"
    using r by auto
  then show ?thesis
    using k m i wf' extends_trans [OF e1 e'] tb t t' t1
    by (simp add: TransformerBasis_pow_def Basis_pow_def)
qed

lemma left_alone_extends: "extends h h' \<Longrightarrow> left_alone h h'"
  by (simp add: left_alone_def tree_of_extends)

lemma new_compositeI:
  assumes "extends h h'"
    and "\<forall>x. reach h' (basis_ref tb) x \<longrightarrow> length h \<le> x \<and> x < length h'"
  shows "new_composite h h' tb"
  using assms by (simp add: new_composite_def left_alone_extends set_config_extends)

text \<open>
  C8. On a store built by constructor calls, \<open>+\<close>, \<open>*\<close> and \<open>**\<close> (with a positive
  integer) on transformers return a transformer and leave every object that existed
  before as it was, both operands with all they are made of included. The basis of
  the result is made only of objects allocated by the call (the operator composes,
  then the constructor takes a deep copy), so assigning to any attribute of the
  composite or of a part of it changes no object of the operands. For \<open>+\<close> and \<open>*\<close>
  the result reads as the composite of the trees of the two operands.
\<close>

theorem composition_frame:
  assumes "wf_heap h" and "basis_ref self < length h" and "basis_ref other < length h"
  shows "(\<exists>h' tb s t. TransformerBasis_add cfg h self other = Some (h', tb) \<and>
            new_composite h h' tb \<and>
            tree_of h (basis_ref self) = Some s \<and> tree_of h (basis_ref other) = Some t \<and>
            tree_of h' (basis_ref tb) = Some (product cfg Additive s t)) \<and>
         (\<exists>h' tb s t. TransformerBasis_mul cfg h self other = Some (h', tb) \<and>
            new_composite h h' tb \<and>
            tree_of h (basis_ref self) = Some s \<and> tree_of h (basis_ref other) = Some t \<and>
            tree_of h' (basis_ref tb) = Some (product cfg Multiplicative s t)) \<and>
         (1 \<le> k \<longrightarrow>
            (\<exists>h' tb. TransformerBasis_pow cfg h self (IntExp k) = Some (Inr (h', tb)) \<and>
               new_composite h h' tb))"
proof -
  from compose_then_copy [OF assms, of Additive cfg]
  have add: "\<exists>h' tb s t. TransformerBasis_add cfg h self other = Some (h', tb) \<and>
            new_composite h h' tb \<and>
            tree_of h (basis_ref self) = Some s \<and> tree_of h (basis_ref other) = Some t \<and>
            tree_of h' (basis_ref tb) = Some (product cfg Additive s t)"
    unfolding TransformerBasis_add_def Basis_add_def by (metis new_compositeI)
  from compose_then_copy [OF assms, of Multiplicative cfg]
  have mul: "\<exists>h' tb s t. TransformerBasis_mul cfg h self other = Some (h', tb) \<and>
            new_composite h h' tb \<and>
            tree_of h (basis_ref self) = Some s \<and> tree_of h (basis_ref other) = Some t \<and>
            tree_of h' (basis_ref tb) = Some (product cfg Multiplicative s t)"
    unfolding TransformerBasis_mul_def Basis_mul_def by (metis new_compositeI)
  have pow: "\<exists>h' tb. TransformerBasis_pow cfg h self (IntExp k) = Some (Inr (h', tb)) \<and>
               new_composite h h' tb" if "1 \<le> k"
    using pow_then_copy [OF assms(1,2) that, of cfg] by (metis new_compositeI)
  show ?thesis using add mul pow by blast
qed

lemma wf_two_leaves: "wf_heap [BasisObj (5::nat) LeafK, BasisObj 7 LeafK]"
  by (simp add: wf_heap_def links_below_def nth_Cons')

theorem composition_frame_witness:
  "wf_heap [BasisObj (5::nat) LeafK, BasisObj 7 LeafK] \<and>
   TransformerBasis_add count_cfg [BasisObj (5::nat) LeafK, BasisObj 7 LeafK]
       \<lparr>basis_ref = 0\<rparr> \<lparr>basis_ref = 1\<rparr>
     = Some ([BasisObj (5::nat) LeafK, BasisObj 7 LeafK, BasisObj 12 (CompositeK Additive 0 1),
              BasisObj 5 LeafK, BasisObj 7 LeafK, BasisObj 12 (CompositeK Additive 3 4)],
             \<lparr>basis_ref = 5\<rparr>) \<and>
   new_composite [BasisObj (5::nat) LeafK, BasisObj 7 LeafK]
     [BasisObj (5::nat) LeafK, BasisObj 7 LeafK, BasisObj 12 (CompositeK Additive 0 1),
      BasisObj 5 LeafK, BasisObj 7 LeafK, BasisObj 12 (CompositeK Additive 3 4)]
     \<lparr>basis_ref = 5\<rparr> \<and>
   (\<exists>h' tb. TransformerBasis_pow count_cfg [BasisObj (5::nat) LeafK, BasisObj 7 LeafK]
       \<lparr>basis_ref = 0\<rparr> (IntExp 2) = Some (Inr (h', tb)) \<and>
      new_composite [BasisObj (5::nat) LeafK, BasisObj 7 LeafK] h' tb)"
proof -
  let ?h = "[BasisObj (5::nat) LeafK, BasisObj 7 LeafK]"
  have a: "basis_ref \<lparr>basis_ref = 0\<rparr> < length ?h" and b: "basis_ref \<lparr>basis_ref = 1\<rparr> < length ?h"
    by simp_all
  have ev: "TransformerBasis_add count_cfg ?h \<lparr>basis_ref = 0\<rparr> \<lparr>basis_ref = 1\<rparr>
     = Some ([BasisObj 5 LeafK, BasisObj 7 LeafK, BasisObj 12 (CompositeK Additive 0 1),
              BasisObj 5 LeafK, BasisObj 7 LeafK, BasisObj 12 (CompositeK Additive 3 4)],
             \<lparr>basis_ref = 5\<rparr>)"
    by code_simp
  from composition_frame [OF wf_two_leaves a b, of count_cfg 2] ev wf_two_leaves
  show ?thesis by auto
qed

text \<open>
  C7. \<open>b ** k\<close> fails with \<open>TypeError\<close> when \<open>k\<close> is not an integer and with
  \<open>ValueError\<close> when \<open>k\<close> is an integer below 1. For a positive integer \<open>k\<close> the result
  reads as the product \<open>((b * b) * b) * ...\<close> of \<open>k\<close> factors \<open>b\<close>; for \<open>k = 1\<close> it reads
  as \<open>b\<close> itself. Multiplying a \<open>j\<close>-fold product of \<open>b\<close> by \<open>b\<close> with \<open>*\<close> gives what
  reads as the \<open>(j + 1)\<close>-fold product.
\<close>

theorem power_is_repeated_product:
  "TransformerBasis_pow cfg h self OtherExp = Some (Inl (Error TypeError ExponentNotInteger)) \<and>
   (k < 1 \<longrightarrow>
      TransformerBasis_pow cfg h self (IntExp k) = Some (Inl (Error ValueError ExponentNotPositive))) \<and>
   (wf_heap h \<and> basis_ref self < length h \<and> 1 \<le> k \<longrightarrow>
      (\<exists>h' tb t. TransformerBasis_pow cfg h self (IntExp k) = Some (Inr (h', tb)) \<and>
         tree_of h (basis_ref self) = Some t \<and>
         tree_of h' (basis_ref tb) = Some (self_product cfg t (nat (k - 1))))) \<and>
   (wf_heap h \<and> basis_ref self < length h \<longrightarrow>
      (\<exists>h' tb. TransformerBasis_pow cfg h self (IntExp 1) = Some (Inr (h', tb)) \<and>
         tree_of h' (basis_ref tb) = tree_of h (basis_ref self))) \<and>
   (wf_heap h \<and> basis_ref self < length h \<and> basis_ref p < length h \<and>
    tree_of h (basis_ref self) = Some t \<and> tree_of h (basis_ref p) = Some (self_product cfg t j) \<longrightarrow>
      (\<exists>h' tb. TransformerBasis_mul cfg h p self = Some (h', tb) \<and>
         tree_of h' (basis_ref tb) = Some (self_product cfg t (Suc j))))"
proof -
  have other: "TransformerBasis_pow cfg h self OtherExp = Some (Inl (Error TypeError ExponentNotInteger))"
    by (simp add: TransformerBasis_pow_def Basis_pow_def)
  have low: "TransformerBasis_pow cfg h self (IntExp k)
      = Some (Inl (Error ValueError ExponentNotPositive))" if "k < 1"
    using that by (simp add: TransformerBasis_pow_def Basis_pow_def)
  have pos: "\<exists>h' tb t. TransformerBasis_pow cfg h self (IntExp k) = Some (Inr (h', tb)) \<and>
         tree_of h (basis_ref self) = Some t \<and>
         tree_of h' (basis_ref tb) = Some (self_product cfg t (nat (k - 1)))"
    if "wf_heap h" "basis_ref self < length h" "1 \<le> k"
    using pow_then_copy [OF that, of cfg] by blast
  have one: "\<exists>h' tb. TransformerBasis_pow cfg h self (IntExp 1) = Some (Inr (h', tb)) \<and>
         tree_of h' (basis_ref tb) = tree_of h (basis_ref self)"
    if "wf_heap h" "basis_ref self < length h"
    using pow_then_copy [OF that, of 1 cfg] by auto
  have step: "\<exists>h' tb. TransformerBasis_mul cfg h p self = Some (h', tb) \<and>
         tree_of h' (basis_ref tb) = Some (self_product cfg t (Suc j))"
    if "wf_heap h" "basis_ref self < length h" "basis_ref p < length h"
      "tree_of h (basis_ref self) = Some t" "tree_of h (basis_ref p) = Some (self_product cfg t j)"
    using compose_then_copy [OF that(1,3,2), of Multiplicative cfg] that(4,5)
    by (auto simp: TransformerBasis_mul_def Basis_mul_def)
  show ?thesis using other low pos one step by blast
qed

lemma wf_one_leaf: "wf_heap [BasisObj (5::nat) LeafK]"
  by (simp add: wf_heap_def links_below_def)

theorem power_is_repeated_product_witness:
  "TransformerBasis_pow count_cfg [BasisObj (5::nat) LeafK] \<lparr>basis_ref = 0\<rparr> OtherExp
     = Some (Inl (Error TypeError ExponentNotInteger)) \<and>
   TransformerBasis_pow count_cfg [BasisObj (5::nat) LeafK] \<lparr>basis_ref = 0\<rparr> (IntExp 0)
     = Some (Inl (Error ValueError ExponentNotPositive)) \<and>
   TransformerBasis_pow count_cfg [BasisObj (5::nat) LeafK] \<lparr>basis_ref = 0\<rparr> (IntExp 3)
     = Some (Inr ([BasisObj 5 LeafK, BasisObj 25 (CompositeK Multiplicative 0 0),
                   BasisObj 125 (CompositeK Multiplicative 1 0), BasisObj 5 LeafK,
                   BasisObj 25 (CompositeK Multiplicative 3 3),
                   BasisObj 125 (CompositeK Multiplicative 4 3)], \<lparr>basis_ref = 5\<rparr>)) \<and>
   tree_of [BasisObj (5::nat) LeafK, BasisObj 25 (CompositeK Multiplicative 0 0),
            BasisObj 125 (CompositeK Multiplicative 1 0), BasisObj 5 LeafK,
            BasisObj 25 (CompositeK Multiplicative 3 3),
            BasisObj 125 (CompositeK Multiplicative 4 3)] 5
     = Some (self_product count_cfg (LeafT 5) 2) \<and>
   TransformerBasis_pow count_cfg [BasisObj (5::nat) LeafK] \<lparr>basis_ref = 0\<rparr> (IntExp 1)
     = Some (Inr ([BasisObj 5 LeafK, BasisObj 5 LeafK], \<lparr>basis_ref = 1\<rparr>))"
proof -
  let ?h = "[BasisObj (5::nat) LeafK]"
  have a: "basis_ref \<lparr>basis_ref = 0\<rparr> < length ?h" by simp
  have t: "tree_of ?h 0 = Some (LeafT 5)" by code_simp
  have ev3: "TransformerBasis_pow count_cfg ?h \<lparr>basis_ref = 0\<rparr> (IntExp 3)
     = Some (Inr ([BasisObj 5 LeafK, BasisObj 25 (CompositeK Multiplicative 0 0),
                   BasisObj 125 (CompositeK Multiplicative 1 0), BasisObj 5 LeafK,
                   BasisObj 25 (CompositeK Multiplicative 3 3),
                   BasisObj 125 (CompositeK Multiplicative 4 3)], \<lparr>basis_ref = 5\<rparr>))"
    by code_simp
  have ev1: "TransformerBasis_pow count_cfg ?h \<lparr>basis_ref = 0\<rparr> (IntExp 1)
     = Some (Inr ([BasisObj 5 LeafK, BasisObj 5 LeafK], \<lparr>basis_ref = 1\<rparr>))"
    by code_simp
  from power_is_repeated_product [of count_cfg ?h "\<lparr>basis_ref = 0\<rparr>" 0]
    power_is_repeated_product [of count_cfg ?h "\<lparr>basis_ref = 0\<rparr>" 3]
    wf_one_leaf a t ev3 ev1
  show ?thesis by auto
qed

section \<open>Assignment to the feature container\<close>

text \<open>
  C9. In a container with an established length, assigning an array whose leading
  axis has another length raises \<open>ValueError\<close>, and assigning a value that is not an
  array raises \<open>ValueError\<close>; the container after the call is the container before
  it.
\<close>

theorem setitem_rejects:
  "num_samples fp = Some m \<Longrightarrow>
     (leading a = Some n \<and> n \<noteq> m \<longrightarrow>
        setitem fp k (Array a) = (fp, Some (Error ValueError (LengthMismatch m n)))) \<and>
     setitem fp k NoArray = (fp, Some (Error ValueError LeafNotArray))"
  by (simp add: setitem_def)

theorem setitem_rejects_witness:
  "FeaturePytree_init [(''a'', Array (zeros [100, 1])), (''b'', Array (zeros [100, 2]))]
     = Inr \<lparr>entries = [(''a'', zeros [100, 1]), (''b'', zeros [100, 2])]\<rparr> \<and>
   num_samples \<lparr>entries = [(''a'', zeros [100, 1]), (''b'', zeros [100, 2])]\<rparr> = Some 100 \<and>
   leading (zeros [99, 2, 4]) = Some 99 \<and> (99::nat) \<noteq> 100 \<and>
   setitem \<lparr>entries = [(''a'', zeros [100, 1]), (''b'', zeros [100, 2])]\<rparr> ''c'' (Array (zeros [99, 2, 4]))
     = (\<lparr>entries = [(''a'', zeros [100, 1]), (''b'', zeros [100, 2])]\<rparr>,
        Some (Error ValueError (LengthMismatch 100 99))) \<and>
   setitem \<lparr>entries = [(''a'', zeros [100, 1]), (''b'', zeros [100, 2])]\<rparr> ''c'' NoArray
     = (\<lparr>entries = [(''a'', zeros [100, 1]), (''b'', zeros [100, 2])]\<rparr>,
        Some (Error ValueError LeafNotArray))"
proof -
  let ?fp = "\<lparr>entries = [(''a'', zeros [100, 1]), (''b'', zeros [100, 2])]\<rparr>"
  have n: "num_samples ?fp = Some 100"
    by (simp add: num_samples_def leading_def zeros_def)
  have l: "leading (zeros [99, 2, 4]) = Some 99"
    by (simp add: leading_def zeros_def)
  have i: "FeaturePytree_init [(''a'', Array (zeros [100, 1])), (''b'', Array (zeros [100, 2]))] = Inr ?fp"
    by (simp add: FeaturePytree_init_def setitem_def num_samples_def leading_def zeros_def)
  from setitem_rejects [OF n, of "zeros [99, 2, 4]" 99 "''c''"] n l i
  show ?thesis by simp
qed

end
